theory Spec2Isabelle
  imports Complex_Main "HOL-Library.Sublist"
begin

section \<open>JavaScript strings\<close>

text \<open>
  A JavaScript string is modelled as a \<open>string\<close>: each \<open>char\<close> stands for one UTF-16
  code unit below 256 (the Latin-1 range), which covers every delimiter, sentinel and
  quote character the module handles. The functions below follow the ECMAScript
  definitions of \<open>trim\<close>, \<open>toLowerCase\<close>, \<open>startsWith\<close>, \<open>substring\<close>, \<open>split\<close> and
  \<open>replace\<close> on that range.
\<close>

definition is_space :: "char \<Rightarrow> bool" where
  \<comment> \<open>WhiteSpace and LineTerminator code units below 256: TAB, LF, VT, FF, CR, SP, NBSP.
     The same class is the regular expression's \<open>\s\<close>.\<close>
  "is_space c = (c \<in> set [CHR 0x09, CHR 0x0A, CHR 0x0B, CHR 0x0C, CHR 0x0D, CHR 0x20, CHR 0xA0])"

definition trim :: "string \<Rightarrow> string" where
  "trim s = rev (dropWhile is_space (rev (dropWhile is_space s)))"

definition lower_char :: "char \<Rightarrow> char" where
  \<comment> \<open>\<open>A\<close>-\<open>Z\<close> and the Latin-1 capitals 0xC0-0xDE (without the multiplication sign 0xD7)
     have their lower-case form 32 code units above.\<close>
  "lower_char c =
     (let n = (of_char c :: nat)
      in if (65 \<le> n \<and> n \<le> 90) \<or> (192 \<le> n \<and> n \<le> 222 \<and> n \<noteq> 215) then char_of (n + 32) else c)"

definition toLowerCase :: "string \<Rightarrow> string" where
  "toLowerCase s = map lower_char s"

definition startsWith :: "string \<Rightarrow> string \<Rightarrow> bool" where
  "startsWith s p = prefix p s"

definition substring_from :: "string \<Rightarrow> nat \<Rightarrow> string" where
  \<comment> \<open>\<open>s.substring(n)\<close>\<close>
  "substring_from s n = drop n s"

definition replace_all_char :: "char \<Rightarrow> string \<Rightarrow> string \<Rightarrow> string" where
  \<comment> \<open>\<open>s.replace(/c/g, r)\<close> for a one-character pattern and a replacement text without \<open>$\<close>\<close>
  "replace_all_char c r s = concat (map (\<lambda>x. if x = c then r else [x]) s)"

definition escape_quotes :: "string \<Rightarrow> string" where
  \<comment> \<open>\<open>.replace(/"/g, '\\"')\<close>: the replacement is the two characters backslash, quote\<close>
  \<open>escape_quotes s = replace_all_char (CHR ''"'') [CHR 0x5C, CHR ''"''] s\<close>

definition escape_backslashes :: "string \<Rightarrow> string" where
  \<comment> \<open>\<open>.replace(/\\/g, '\\\\')\<close>: the replacement is two backslashes\<close>
  "escape_backslashes s = replace_all_char (CHR 0x5C) [CHR 0x5C, CHR 0x5C] s"

function js_split_from :: "string \<Rightarrow> string \<Rightarrow> string \<Rightarrow> string list" where
  "js_split_from sep acc [] = [rev acc]"
| "js_split_from sep acc (c # cs) =
     (if sep \<noteq> [] \<and> prefix sep (c # cs)
      then rev acc # js_split_from sep [] (drop (length sep - 1) cs)
      else js_split_from sep (c # acc) cs)"
  by pat_completeness auto
termination
  by (relation "measure (\<lambda>(sep, acc, s). length s)") auto

definition js_split :: "string \<Rightarrow> string \<Rightarrow> string list" where
  \<comment> \<open>\<open>s.split(sep)\<close> for a non-empty separator: cut at each occurrence of \<open>sep\<close>, found from
     the left and not overlapping; the empty string gives one empty fragment.\<close>
  "js_split s sep = js_split_from sep [] s"

fun show_nat :: "nat \<Rightarrow> string" where
  \<comment> \<open>the decimal digits of a natural number\<close>
  "show_nat n = (if n < 10 then [char_of (48 + n)] else show_nat (n div 10) @ [char_of (48 + n mod 10)])"

declare show_nat.simps [simp del]

section \<open>JavaScript numbers\<close>

text \<open>
  A number is not-a-number, an infinity or a finite value. \<open>Math.min\<close> is exact, so the
  finite values are taken as reals. How a template literal renders a number is the
  runtime's business: it is \<open>number_text\<close> of the environment below.
\<close>

datatype jsnum = NaN | NegInf | Finite real | PosInf

fun math_min :: "jsnum \<Rightarrow> jsnum \<Rightarrow> jsnum" where
  \<comment> \<open>\<open>Math.min(a, b)\<close>: not-a-number if either argument is, the smaller one otherwise\<close>
  "math_min NaN b = NaN"
| "math_min a NaN = NaN"
| "math_min NegInf b = NegInf"
| "math_min a NegInf = NegInf"
| "math_min PosInf b = b"
| "math_min a PosInf = a"
| "math_min (Finite x) (Finite y) = Finite (min x y)"

section \<open>Configuration\<close>

definition MAX_EMAILS :: jsnum where
  "MAX_EMAILS = Finite 20"

definition MAX_CONTENT_PREVIEW :: nat where
  "MAX_CONTENT_PREVIEW = 300"

section \<open>Values, errors and effects\<close>

text \<open>
  \<open>runAppleScript\<close> is the external interpreter. Its result is typed \<open>unknown\<close> in the
  source, so replies are JavaScript values: a string, an array, a number or
  \<open>undefined\<close>. Every effect of the module is an event appended to the trace of the
  world; the temporary files live in \<open>files\<close>. An invocation is recorded with the files
  as they are when the script is run. What the interpreter answers, the clock, the text
  of a number in a template literal and the failures of the file system belong to the
  environment.
\<close>

datatype exn = Error (error_message: string)

datatype jsval = JStr string | JArr "jsval list" | JNum int | JUndefined

datatype event =
    Invoke string "string \<rightharpoonup> string"
  | WriteFile string string
  | Unlink string
  | ConsoleError string

record world =
  files :: "string \<rightharpoonup> string"
  trace :: "event list"

record env =
  interp :: "world \<Rightarrow> string \<Rightarrow> exn + jsval"
  date_now :: jsnum
  number_text :: "jsnum \<Rightarrow> string"
  date_string :: string
  write_error :: "string \<Rightarrow> exn option"
  unlink_error :: "string \<Rightarrow> exn option"

type_synonym 'a io = "world \<Rightarrow> (exn + 'a) \<times> world"

definition io_return :: "'a \<Rightarrow> 'a io" where
  "io_return x = (\<lambda>w. (Inr x, w))"

definition io_throw :: "exn \<Rightarrow> 'a io" where
  "io_throw e = (\<lambda>w. (Inl e, w))"

definition io_bind :: "'a io \<Rightarrow> ('a \<Rightarrow> 'b io) \<Rightarrow> 'b io" where
  "io_bind m k = (\<lambda>w. case m w of (Inl e, w') \<Rightarrow> (Inl e, w') | (Inr x, w') \<Rightarrow> k x w')"

definition io_catch :: "'a io \<Rightarrow> (exn \<Rightarrow> 'a io) \<Rightarrow> 'a io" where
  \<comment> \<open>\<open>try { m } catch (error) { h error }\<close>\<close>
  "io_catch m h = (\<lambda>w. case m w of (Inl e, w') \<Rightarrow> h e w' | (Inr x, w') \<Rightarrow> (Inr x, w'))"

definition emit :: "event \<Rightarrow> world \<Rightarrow> world" where
  "emit ev w = w\<lparr>trace := trace w @ [ev]\<rparr>"

definition invoked :: "string \<Rightarrow> world \<Rightarrow> world" where
  \<comment> \<open>the trace records each invocation with the files as the interpreter finds them\<close>
  "invoked script w = emit (Invoke script (files w)) w"

definition runAppleScript :: "env \<Rightarrow> string \<Rightarrow> jsval io" where
  "runAppleScript e script = (\<lambda>w. (interp e w script, invoked script w))"

definition console_error :: "string \<Rightarrow> unit io" where
  "console_error msg = (\<lambda>w. (Inr (), emit (ConsoleError msg) w))"

definition writeFileSync :: "env \<Rightarrow> string \<Rightarrow> string \<Rightarrow> unit io" where
  "writeFileSync e path data =
     (\<lambda>w. case write_error e path of
             Some err \<Rightarrow> (Inl err, w)
           | None \<Rightarrow> (Inr (), emit (WriteFile path data) (w\<lparr>files := (files w)(path \<mapsto> data)\<rparr>)))"

definition unlinkSync :: "env \<Rightarrow> string \<Rightarrow> unit io" where
  "unlinkSync e path =
     (\<lambda>w. case files w path of
             None \<Rightarrow> (Inl (Error ''ENOENT: no such file or directory''), w)
           | Some _ \<Rightarrow>
               (case unlink_error e path of
                  Some err \<Rightarrow> (Inl err, w)
                | None \<Rightarrow> (Inr (), emit (Unlink path) (w\<lparr>files := (files w)(path := None)\<rparr>))))"

definition invocations :: "world \<Rightarrow> string list" where
  \<comment> \<open>what an invoker recording its calls has recorded\<close>
  "invocations w = concat (map (\<lambda>ev. case ev of Invoke s _ \<Rightarrow> [s] | _ \<Rightarrow> []) (trace w))"

section \<open>Data model\<close>

record EmailMessage =
  subject :: string
  sender :: string
  dateSent :: string
  content :: string
  isRead :: bool
  mailbox :: string

text \<open>
  The three result objects of the module all carry a \<open>message\<close>; they extend one record
  so that the field keeps its name.
\<close>

record Result =
  message :: string

record AccessResult = Result +
  hasAccess :: bool

record OperationResult = Result +
  success :: bool

record ReplyResult = Result +
  replied :: bool
  replySentAt :: "string option"

section \<open>Access gate\<close>

text \<open>
  Every generated script is a template of the source: a definition that takes the texts
  interpolated into it and returns the script, line by line as the source has it. The
  operation computes the interpolated texts (limits rendered as numbers, escaped
  literals) and passes them.
\<close>

definition mail_access_script :: "string" where
  \<open>mail_access_script = concat
   [''\<newline>'',
    ''tell application "Mail"\<newline>'',
    ''    return name\<newline>'',
    ''end tell'']\<close>

definition checkMailAccess :: "env \<Rightarrow> bool io" where
  "checkMailAccess e =
     io_catch
       (io_bind (runAppleScript e mail_access_script) (\<lambda>_. io_return True))
       (\<lambda>error.
          io_bind (console_error (''Cannot access Mail app: '' @ error_message error)) (\<lambda>_.
          io_return False))"

definition access_instructions :: string where
  "access_instructions = concat
   [''Mail access is required but not granted. Please:\<newline>'',
    ''1. Open System Settings > Privacy & Security > Automation\<newline>'',
    ''2. Find your terminal/app in the list and enable 'Mail'\<newline>'',
    ''3. Make sure Mail app is running and configured with at least one account\<newline>'',
    ''4. Restart your terminal and try again'']"

definition requestMailAccess :: "env \<Rightarrow> AccessResult io" where
  "requestMailAccess e =
     io_catch
       (io_bind (checkMailAccess e) (\<lambda>ok.
          if ok then io_return \<lparr>message = ''Mail access is already granted.'', hasAccess = True\<rparr>
          else io_return \<lparr>message = access_instructions, hasAccess = False\<rparr>))
       (\<lambda>error.
          io_return \<lparr>message = ''Error checking Mail access: '' @ error_message error,
                      hasAccess = False\<rparr>)"

section \<open>Unread and search listings\<close>

definition unread_script :: "string \<Rightarrow> string" where
  \<open>unread_script maxEmails = concat
   [''\<newline>'',
    ''tell application "Mail"\<newline>'',
    ''    set emailList to {}\<newline>'',
    ''    set emailCount to 0\<newline>'',
    ''\<newline>'',
    ''    -- Get mailboxes (limited to avoid performance issues)\<newline>'',
    ''    set allMailboxes to mailboxes\<newline>'',
    ''\<newline>'',
    ''    repeat with i from 1 to (count of allMailboxes)\<newline>'',
    ''        if emailCount >= '', maxEmails, '' then exit repeat\<newline>'',
    ''\<newline>'',
    ''        try\<newline>'',
    ''            set currentMailbox to item i of allMailboxes\<newline>'',
    ''            set mailboxName to name of currentMailbox\<newline>'',
    ''\<newline>'',
    ''            -- Get unread messages from this mailbox\<newline>'',
    ''            set unreadMessages to messages of currentMailbox\<newline>'',
    ''\<newline>'',
    ''            repeat with j from 1 to (count of unreadMessages)\<newline>'',
    ''                if emailCount >= '', maxEmails, '' then exit repeat\<newline>'',
    ''\<newline>'',
    ''                try\<newline>'',
    ''                    set currentMsg to item j of unreadMessages\<newline>'',
    ''\<newline>'',
    ''                    -- Only process unread messages\<newline>'',
    ''                    if read status of currentMsg is false then\<newline>'',
    ''                        set emailSubject to subject of currentMsg\<newline>'',
    ''                        set emailSender to sender of currentMsg\<newline>'',
    ''                        set emailDate to (date sent of currentMsg) as string\<newline>'',
    ''\<newline>'',
    ''                        -- Get content with length limit\<newline>'',
    ''                        set emailContent to ""\<newline>'',
    ''                        try\<newline>'',
    ''                            set fullContent to content of currentMsg\<newline>'',
    ''                            if (length of fullContent) > '', show_nat MAX_CONTENT_PREVIEW, '' then\<newline>'',
    ''                                set emailContent to (characters 1 thru '', show_nat MAX_CONTENT_PREVIEW, '' of fullContent) as string\<newline>'',
    ''                                set emailContent to emailContent & "..."\<newline>'',
    ''                            else\<newline>'',
    ''                                set emailContent to fullContent\<newline>'',
    ''                            end if\<newline>'',
    ''                        on error\<newline>'',
    ''                            set emailContent to "[Content not available]"\<newline>'',
    ''                        end try\<newline>'',
    ''\<newline>'',
    ''                        set emailInfo to {subject:emailSubject, sender:emailSender, dateSent:emailDate, content:emailContent, isRead:false, mailbox:mailboxName}\<newline>'',
    ''                        set emailList to emailList & {emailInfo}\<newline>'',
    ''                        set emailCount to emailCount + 1\<newline>'',
    ''                    end if\<newline>'',
    ''                on error\<newline>'',
    ''                    -- Skip problematic messages\<newline>'',
    ''                end try\<newline>'',
    ''            end repeat\<newline>'',
    ''        on error\<newline>'',
    ''            -- Skip problematic mailboxes\<newline>'',
    ''        end try\<newline>'',
    ''    end repeat\<newline>'',
    ''\<newline>'',
    ''    return "SUCCESS:" & (count of emailList)\<newline>'',
    ''end tell'']\<close>

definition search_script :: "string \<Rightarrow> string \<Rightarrow> string" where
  \<open>search_script cleanSearchTerm maxEmails = concat
   [''\<newline>'',
    ''tell application "Mail"\<newline>'',
    ''    set emailList to {}\<newline>'',
    ''    set emailCount to 0\<newline>'',
    ''    set searchTerm to "'', cleanSearchTerm, ''"\<newline>'',
    ''\<newline>'',
    ''    -- Get mailboxes (limited to avoid performance issues)\<newline>'',
    ''    set allMailboxes to mailboxes\<newline>'',
    ''\<newline>'',
    ''    repeat with i from 1 to (count of allMailboxes)\<newline>'',
    ''        if emailCount >= '', maxEmails, '' then exit repeat\<newline>'',
    ''\<newline>'',
    ''        try\<newline>'',
    ''            set currentMailbox to item i of allMailboxes\<newline>'',
    ''            set mailboxName to name of currentMailbox\<newline>'',
    ''\<newline>'',
    ''            -- Get messages from this mailbox\<newline>'',
    ''            set allMessages to messages of currentMailbox\<newline>'',
    ''\<newline>'',
    ''            repeat with j from 1 to (count of allMessages)\<newline>'',
    ''                if emailCount >= '', maxEmails, '' then exit repeat\<newline>'',
    ''\<newline>'',
    ''                try\<newline>'',
    ''                    set currentMsg to item j of allMessages\<newline>'',
    ''                    set emailSubject to subject of currentMsg\<newline>'',
    ''\<newline>'',
    ''                    -- Simple case-insensitive search in subject\<newline>'',
    ''                    if emailSubject contains searchTerm then\<newline>'',
    ''                        set emailSender to sender of currentMsg\<newline>'',
    ''                        set emailDate to (date sent of currentMsg) as string\<newline>'',
    ''                        set emailRead to read status of currentMsg\<newline>'',
    ''\<newline>'',
    ''                        -- Get content with length limit\<newline>'',
    ''                        set emailContent to ""\<newline>'',
    ''                        try\<newline>'',
    ''                            set fullContent to content of currentMsg\<newline>'',
    ''                            if (length of fullContent) > '', show_nat MAX_CONTENT_PREVIEW, '' then\<newline>'',
    ''                                set emailContent to (characters 1 thru '', show_nat MAX_CONTENT_PREVIEW, '' of fullContent) as string\<newline>'',
    ''                                set emailContent to emailContent & "..."\<newline>'',
    ''                            else\<newline>'',
    ''                                set emailContent to fullContent\<newline>'',
    ''                            end if\<newline>'',
    ''                        on error\<newline>'',
    ''                            set emailContent to "[Content not available]"\<newline>'',
    ''                        end try\<newline>'',
    ''\<newline>'',
    ''                        set emailInfo to {subject:emailSubject, sender:emailSender, dateSent:emailDate, content:emailContent, isRead:emailRead, mailbox:mailboxName}\<newline>'',
    ''                        set emailList to emailList & {emailInfo}\<newline>'',
    ''                        set emailCount to emailCount + 1\<newline>'',
    ''                    end if\<newline>'',
    ''                on error\<newline>'',
    ''                    -- Skip problematic messages\<newline>'',
    ''                end try\<newline>'',
    ''            end repeat\<newline>'',
    ''        on error\<newline>'',
    ''            -- Skip problematic mailboxes\<newline>'',
    ''        end try\<newline>'',
    ''    end repeat\<newline>'',
    ''\<newline>'',
    ''    return "SUCCESS:" & (count of emailList)\<newline>'',
    ''end tell'']\<close>

definition truthy :: "jsval \<Rightarrow> bool" where
  "truthy v = (case v of JStr s \<Rightarrow> s \<noteq> [] | JArr _ \<Rightarrow> True | JNum n \<Rightarrow> n \<noteq> 0 | JUndefined \<Rightarrow> False)"

definition result_startsWith :: "jsval \<Rightarrow> string \<Rightarrow> bool io" where
  \<comment> \<open>\<open>result.startsWith(p)\<close> on a value cast to string: a TypeError unless it is one\<close>
  "result_startsWith v p =
     (case v of
        JStr s \<Rightarrow> io_return (startsWith s p)
      | JUndefined \<Rightarrow> io_throw (Error ''Cannot read properties of undefined (reading 'startsWith')'')
      | _ \<Rightarrow> io_throw (Error ''result.startsWith is not a function''))"

definition getUnreadMails :: "env \<Rightarrow> jsnum \<Rightarrow> EmailMessage list io" where
  "getUnreadMails e limit =
     io_catch
       (io_bind (requestMailAccess e) (\<lambda>accessResult.
          if \<not> hasAccess accessResult then io_throw (Error (message accessResult))
          else
            let maxEmails = math_min limit MAX_EMAILS;
                script = unread_script (number_text e maxEmails)
            in io_bind (runAppleScript e script) (\<lambda>result.
                 if \<not> truthy result then io_return []
                 else io_bind (result_startsWith result ''SUCCESS:'') (\<lambda>ok.
                        if ok then io_return [] else io_return []))))
       (\<lambda>error.
          io_bind (console_error (''Error getting unread emails: '' @ error_message error)) (\<lambda>_.
          io_return []))"

definition searchMails :: "env \<Rightarrow> string \<Rightarrow> jsnum \<Rightarrow> EmailMessage list io" where
  "searchMails e searchTerm limit =
     io_catch
       (io_bind (requestMailAccess e) (\<lambda>accessResult.
          if \<not> hasAccess accessResult then io_throw (Error (message accessResult))
          else if searchTerm = [] \<or> trim searchTerm = [] then io_return []
          else
            let maxEmails = math_min limit MAX_EMAILS;
                cleanSearchTerm = toLowerCase searchTerm;
                script = search_script cleanSearchTerm (number_text e maxEmails)
            in io_bind (runAppleScript e script) (\<lambda>result.
                 if \<not> truthy result then io_return []
                 else io_bind (result_startsWith result ''SUCCESS:'') (\<lambda>ok.
                        if ok then io_return [] else io_return []))))
       (\<lambda>error.
          io_bind (console_error (''Error searching emails: '' @ error_message error)) (\<lambda>_.
          io_return []))"


section \<open>Sending\<close>

definition cc_clause :: "string option \<Rightarrow> string" where
  \<comment> \<open>the clause is left out when \<open>cc\<close> is absent or empty\<close>
  \<open>cc_clause cc =
     (case cc of
        None \<Rightarrow> ''''
      | Some c \<Rightarrow>
          if c \<noteq> [] then ''make new cc recipient with properties {address:"'' @ escape_quotes c @ ''"}''
          else '''')\<close>

definition bcc_clause :: "string option \<Rightarrow> string" where
  \<open>bcc_clause bcc =
     (case bcc of
        None \<Rightarrow> ''''
      | Some c \<Rightarrow>
          if c \<noteq> [] then ''make new bcc recipient with properties {address:"'' @ escape_quotes c @ ''"}''
          else '''')\<close>

definition send_script :: "string \<Rightarrow> string \<Rightarrow> string \<Rightarrow> string \<Rightarrow> string \<Rightarrow> string" where
  \<open>send_script tmpFile safeSubject safeTo ccClause bccClause = concat
   [''\<newline>'',
    ''tell application "Mail"\<newline>'',
    ''    activate\<newline>'',
    ''\<newline>'',
    ''    -- Read email body from file to preserve formatting\<newline>'',
    ''    set emailBody to read file POSIX file "'', tmpFile, ''" as '', [CHR 0xAB], ''class utf8'', [CHR 0xBB], ''\<newline>'',
    ''\<newline>'',
    ''    -- Create new message\<newline>'',
    ''    set newMessage to make new outgoing message with properties {subject:"'', safeSubject, ''", content:emailBody, visible:true}\<newline>'',
    ''\<newline>'',
    ''    tell newMessage\<newline>'',
    ''        make new to recipient with properties {address:"'', safeTo, ''"}\<newline>'',
    ''        '', ccClause, ''\<newline>'',
    ''        '', bccClause, ''\<newline>'',
    ''    end tell\<newline>'',
    ''\<newline>'',
    ''    send newMessage\<newline>'',
    ''    return "SUCCESS"\<newline>'',
    ''end tell'']\<close>

definition tmp_file :: "env \<Rightarrow> string" where
  "tmp_file e = ''/tmp/email-body-'' @ number_text e (date_now e) @ ''.txt''"

definition sendMail :: "env \<Rightarrow> string \<Rightarrow> string \<Rightarrow> string \<Rightarrow> string option \<Rightarrow> string option \<Rightarrow> string io" where
  \<open>sendMail e to subject' body cc bcc =
     io_catch
       (io_bind (requestMailAccess e) (\<lambda>accessResult.
          if \<not> hasAccess accessResult then io_throw (Error (message accessResult))
          else if to = [] \<or> trim to = [] then io_throw (Error ''To address is required'')
          else if subject' = [] \<or> trim subject' = [] then io_throw (Error ''Subject is required'')
          else if body = [] \<or> trim body = [] then io_throw (Error ''Email body is required'')
          else
            let tmpFile = tmp_file e
            in io_bind (writeFileSync e tmpFile (trim body)) (\<lambda>_.
               let script = send_script tmpFile (escape_quotes subject') (escape_quotes to)
                              (cc_clause cc) (bcc_clause bcc)
               in io_bind (runAppleScript e script) (\<lambda>result.
                  io_bind (io_catch (unlinkSync e tmpFile) (\<lambda>_. io_return ())) (\<lambda>_.
                  if result = JStr ''SUCCESS''
                  then io_return (''Email sent to '' @ to @ '' with subject "'' @ subject' @ ''"'')
                  else io_throw (Error ''Failed to send email''))))))
       (\<lambda>error.
          io_bind (console_error (''Error sending email: '' @ error_message error)) (\<lambda>_.
          io_throw (Error (''Error sending email: '' @ error_message error))))\<close>

section \<open>Mailbox and account listings\<close>

definition is_string :: "jsval \<Rightarrow> bool" where
  \<comment> \<open>\<open>typeof v === "string"\<close>\<close>
  "is_string v = (case v of JStr _ \<Rightarrow> True | _ \<Rightarrow> False)"

definition string_of :: "jsval \<Rightarrow> string" where
  "string_of v = (case v of JStr s \<Rightarrow> s | _ \<Rightarrow> [])"

definition filter_names :: "jsval list \<Rightarrow> string list" where
  \<comment> \<open>\<open>result.filter((name) => name && typeof name === "string")\<close>\<close>
  "filter_names result = map string_of (filter (\<lambda>name. truthy name \<and> is_string name) result)"

definition split_names :: "string \<Rightarrow> string list" where
  \<comment> \<open>\<open>result.split(",").map((s) => s.trim()).filter(Boolean)\<close>\<close>
  "split_names result = filter (\<lambda>s. s \<noteq> []) (map trim (js_split result '',''))"

definition mailboxes_script :: "string" where
  \<open>mailboxes_script = concat
   [''\<newline>'',
    ''tell application "Mail"\<newline>'',
    ''    try\<newline>'',
    ''        set boxNames to {}\<newline>'',
    ''        set allBoxes to every mailbox\<newline>'',
    ''        repeat with mb in allBoxes\<newline>'',
    ''            try\<newline>'',
    ''                set end of boxNames to name of mb\<newline>'',
    ''            on error\<newline>'',
    ''                -- Skip mailboxes we can't read\<newline>'',
    ''            end try\<newline>'',
    ''        end repeat\<newline>'',
    ''        return boxNames\<newline>'',
    ''    on error\<newline>'',
    ''        return {}\<newline>'',
    ''    end try\<newline>'',
    ''end tell'']\<close>

definition accounts_script :: "string" where
  \<open>accounts_script = concat
   [''\<newline>'',
    ''tell application "Mail"\<newline>'',
    ''    try\<newline>'',
    ''        set accountNames to {}\<newline>'',
    ''        set allAccounts to every account\<newline>'',
    ''        repeat with acct in allAccounts\<newline>'',
    ''            try\<newline>'',
    ''                set end of accountNames to name of acct\<newline>'',
    ''            on error\<newline>'',
    ''                -- Skip accounts we can't read\<newline>'',
    ''            end try\<newline>'',
    ''        end repeat\<newline>'',
    ''        return accountNames\<newline>'',
    ''    on error\<newline>'',
    ''        return {}\<newline>'',
    ''    end try\<newline>'',
    ''end tell'']\<close>

definition mailboxes_for_account_script :: "string \<Rightarrow> string" where
  \<open>mailboxes_for_account_script safeAccount = concat
   [''\<newline>'',
    ''tell application "Mail"\<newline>'',
    ''    set boxList to {}\<newline>'',
    ''\<newline>'',
    ''    try\<newline>'',
    ''        -- Find the account\<newline>'',
    ''        set targetAccount to first account whose name is "'', safeAccount, ''"\<newline>'',
    ''        set accountMailboxes to mailboxes of targetAccount\<newline>'',
    ''\<newline>'',
    ''        repeat with i from 1 to (count of accountMailboxes)\<newline>'',
    ''            try\<newline>'',
    ''                set currentMailbox to item i of accountMailboxes\<newline>'',
    ''                set mailboxName to name of currentMailbox\<newline>'',
    ''                set boxList to boxList & {mailboxName}\<newline>'',
    ''            on error\<newline>'',
    ''                -- Skip problematic mailboxes\<newline>'',
    ''            end try\<newline>'',
    ''        end repeat\<newline>'',
    ''    on error\<newline>'',
    ''        -- Account not found or other error\<newline>'',
    ''        return {}\<newline>'',
    ''    end try\<newline>'',
    ''\<newline>'',
    ''    return boxList\<newline>'',
    ''end tell'']\<close>

definition getMailboxes :: "env \<Rightarrow> string list io" where
  "getMailboxes e =
     io_catch
       (io_bind (requestMailAccess e) (\<lambda>accessResult.
          if \<not> hasAccess accessResult then io_throw (Error (message accessResult))
          else
            io_bind (runAppleScript e mailboxes_script) (\<lambda>result.
              case result of
                JArr names \<Rightarrow> io_return (filter_names names)
              | JStr s \<Rightarrow> if trim s \<noteq> [] then io_return (split_names s) else io_return []
              | _ \<Rightarrow> io_return [])))
       (\<lambda>error.
          io_bind (console_error (''Error getting mailboxes: '' @ error_message error)) (\<lambda>_.
          io_return []))"

definition getAccounts :: "env \<Rightarrow> string list io" where
  "getAccounts e =
     io_catch
       (io_bind (requestMailAccess e) (\<lambda>accessResult.
          if \<not> hasAccess accessResult then io_throw (Error (message accessResult))
          else
            io_bind (runAppleScript e accounts_script) (\<lambda>result.
              case result of
                JArr names \<Rightarrow> io_return (filter_names names)
              | JStr s \<Rightarrow> if trim s \<noteq> [] then io_return (split_names s) else io_return []
              | _ \<Rightarrow> io_return [])))
       (\<lambda>error.
          io_bind (console_error (''Error getting accounts: '' @ error_message error)) (\<lambda>_.
          io_return []))"

definition getMailboxesForAccount :: "env \<Rightarrow> string \<Rightarrow> string list io" where
  "getMailboxesForAccount e accountName =
     io_catch
       (io_bind (requestMailAccess e) (\<lambda>accessResult.
          if \<not> hasAccess accessResult then io_throw (Error (message accessResult))
          else if accountName = [] \<or> trim accountName = [] then io_return []
          else
            io_bind (runAppleScript e (mailboxes_for_account_script (escape_quotes accountName))) (\<lambda>result.
              case result of
                JArr names \<Rightarrow> io_return (filter_names names)
              | _ \<Rightarrow> io_return [])))
       (\<lambda>error.
          io_bind (console_error (''Error getting mailboxes for account: '' @ error_message error)) (\<lambda>_.
          io_return []))"

section \<open>Latest messages of an account\<close>

definition DELIM :: string where
  "DELIM = ''<<<EMAIL_SEP>>>''"

definition FIELD_DELIM :: string where
  "FIELD_DELIM = ''<<<FIELD>>>''"

definition field :: "string list \<Rightarrow> nat \<Rightarrow> string option" where
  \<comment> \<open>\<open>fields[i]\<close>: \<open>undefined\<close> beyond the end\<close>
  "field xs i = (if i < length xs then Some (xs ! i) else None)"

definition or_default :: "string option \<Rightarrow> string \<Rightarrow> string" where
  \<comment> \<open>\<open>v || d\<close>: \<open>undefined\<close> and the empty string are falsy\<close>
  "or_default v d = (case v of None \<Rightarrow> d | Some s \<Rightarrow> if s \<noteq> [] then s else d)"

fun parse_emails :: "string \<Rightarrow> string \<Rightarrow> string list \<Rightarrow> EmailMessage list \<Rightarrow> EmailMessage list" where
  "parse_emails now account [] emailData = emailData"
| "parse_emails now account (emailStr # emailStrings) emailData =
     (let fields = js_split emailStr FIELD_DELIM
      in if 4 \<le> length fields
         then parse_emails now account emailStrings
                (emailData @
                 [\<lparr>subject = or_default (field fields 0) ''No subject'',
                   sender = or_default (field fields 1) ''Unknown sender'',
                   dateSent = or_default (field fields 2) now,
                   content = or_default (field fields 4) ''[Content not available]'',
                   isRead = (field fields 3 = Some ''true''),
                   mailbox = account @ '' - INBOX''\<rparr>])
         else parse_emails now account emailStrings emailData)"

definition latest_script :: "string \<Rightarrow> string \<Rightarrow> string" where
  \<open>latest_script safeAccount maxMessages = concat
   [''\<newline>'',
    ''tell application "Mail"\<newline>'',
    ''    set resultText to ""\<newline>'',
    ''    try\<newline>'',
    ''        set targetAccount to first account whose name is "'', safeAccount, ''"\<newline>'',
    ''        -- Try INBOX first, fall back to first mailbox\<newline>'',
    ''        try\<newline>'',
    ''            set targetMailbox to mailbox "INBOX" of targetAccount\<newline>'',
    ''        on error\<newline>'',
    ''            set targetMailbox to first mailbox of targetAccount\<newline>'',
    ''        end try\<newline>'',
    ''\<newline>'',
    ''        set msgCount to count of messages of targetMailbox\<newline>'',
    ''        if msgCount > '', maxMessages, '' then set msgCount to '', maxMessages, ''\<newline>'',
    ''\<newline>'',
    ''        repeat with i from 1 to msgCount\<newline>'',
    ''            try\<newline>'',
    ''                set currentMsg to message i of targetMailbox\<newline>'',
    ''                set msgSubject to subject of currentMsg\<newline>'',
    ''                set msgSender to sender of currentMsg\<newline>'',
    ''                set msgDate to (date sent of currentMsg) as string\<newline>'',
    ''                set msgRead to read status of currentMsg\<newline>'',
    ''\<newline>'',
    ''                -- Get content safely\<newline>'',
    ''                set msgContent to "[Content not available]"\<newline>'',
    ''                try\<newline>'',
    ''                    set rawContent to content of currentMsg\<newline>'',
    ''                    if (length of rawContent) > 300 then\<newline>'',
    ''                        set msgContent to (text 1 thru 300 of rawContent) & "..."\<newline>'',
    ''                    else\<newline>'',
    ''                        set msgContent to rawContent\<newline>'',
    ''                    end if\<newline>'',
    ''                end try\<newline>'',
    ''\<newline>'',
    ''                -- Build delimited output\<newline>'',
    ''                set resultText to resultText & msgSubject & "'', FIELD_DELIM, ''" & msgSender & "'', FIELD_DELIM, ''" & msgDate & "'', FIELD_DELIM, ''" & msgRead & "'', FIELD_DELIM, ''" & msgContent & "'', DELIM, ''"\<newline>'',
    ''            on error\<newline>'',
    ''                -- Skip problematic messages\<newline>'',
    ''            end try\<newline>'',
    ''        end repeat\<newline>'',
    ''    on error errMsg\<newline>'',
    ''        return "ERROR:" & errMsg\<newline>'',
    ''    end try\<newline>'',
    ''\<newline>'',
    ''    return resultText\<newline>'',
    ''end tell'']\<close>

definition getLatestMails :: "env \<Rightarrow> string \<Rightarrow> jsnum \<Rightarrow> EmailMessage list io" where
  "getLatestMails e account limit =
     io_catch
       (io_bind (requestMailAccess e) (\<lambda>accessResult.
          if \<not> hasAccess accessResult then io_throw (Error (message accessResult))
          else
            let safeAccount = escape_quotes account;
                maxMessages = math_min limit MAX_EMAILS;
                script = latest_script safeAccount (number_text e maxMessages)
            in io_bind (runAppleScript e script) (\<lambda>asResult.
                 case asResult of
                   JStr s \<Rightarrow>
                     if startsWith s ''ERROR:'' then io_throw (Error (substring_from s 6))
                     else
                       let emailStrings = filter (\<lambda>x. x \<noteq> []) (js_split s DELIM)
                       in io_return (parse_emails (date_string e) account emailStrings [])
                 | _ \<Rightarrow> io_return [])))
       (\<lambda>error.
          io_bind (console_error (''Error getting latest emails: '' @ error_message error)) (\<lambda>_.
          io_return []))"

section \<open>Archiving\<close>

definition archive_script :: "string \<Rightarrow> string \<Rightarrow> string \<Rightarrow> string" where
  \<open>archive_script safeAccount safeSubject safeSender = concat
   [''\<newline>'',
    ''tell application "Mail"\<newline>'',
    ''    try\<newline>'',
    ''        set targetAccount to first account whose name is "'', safeAccount, ''"\<newline>'',
    ''        set archiveBox to missing value\<newline>'',
    ''\<newline>'',
    ''        -- Find Archive mailbox (Gmail uses "[Gmail]/All Mail", others use "Archive")\<newline>'',
    ''        repeat with mb in mailboxes of targetAccount\<newline>'',
    ''            set mbName to name of mb\<newline>'',
    ''            if mbName is "Archive" or mbName is "[Gmail]/All Mail" or mbName contains "Archive" then\<newline>'',
    ''                set archiveBox to mb\<newline>'',
    ''                exit repeat\<newline>'',
    ''            end if\<newline>'',
    ''        end repeat\<newline>'',
    ''\<newline>'',
    ''        if archiveBox is missing value then\<newline>'',
    ''            return "ERROR:No Archive mailbox found for account '', safeAccount, ''"\<newline>'',
    ''        end if\<newline>'',
    ''\<newline>'',
    ''        -- Find the message\<newline>'',
    ''        set foundMsg to missing value\<newline>'',
    ''        repeat with mb in mailboxes of targetAccount\<newline>'',
    ''            try\<newline>'',
    ''                set msgs to (messages of mb whose subject contains "'', safeSubject, ''" and sender contains "'', safeSender, ''")\<newline>'',
    ''                if (count of msgs) > 0 then\<newline>'',
    ''                    set foundMsg to item 1 of msgs\<newline>'',
    ''                    exit repeat\<newline>'',
    ''                end if\<newline>'',
    ''            end try\<newline>'',
    ''        end repeat\<newline>'',
    ''\<newline>'',
    ''        if foundMsg is missing value then\<newline>'',
    ''            return "ERROR:Message not found"\<newline>'',
    ''        end if\<newline>'',
    ''\<newline>'',
    ''        -- Move to archive\<newline>'',
    ''        move foundMsg to archiveBox\<newline>'',
    ''        return "SUCCESS:Message archived"\<newline>'',
    ''    on error errMsg\<newline>'',
    ''        return "ERROR:" & errMsg\<newline>'',
    ''    end try\<newline>'',
    ''end tell'']\<close>

definition delete_script :: "string \<Rightarrow> string \<Rightarrow> string \<Rightarrow> string" where
  \<open>delete_script safeAccount safeSubject safeSender = concat
   [''\<newline>'',
    ''tell application "Mail"\<newline>'',
    ''    try\<newline>'',
    ''        set targetAccount to first account whose name is "'', safeAccount, ''"\<newline>'',
    ''        set trashBox to missing value\<newline>'',
    ''\<newline>'',
    ''        -- Find Trash mailbox\<newline>'',
    ''        repeat with mb in mailboxes of targetAccount\<newline>'',
    ''            set mbName to name of mb\<newline>'',
    ''            if mbName is "Trash" or mbName is "[Gmail]/Trash" or mbName contains "Trash" then\<newline>'',
    ''                set trashBox to mb\<newline>'',
    ''                exit repeat\<newline>'',
    ''            end if\<newline>'',
    ''        end repeat\<newline>'',
    ''\<newline>'',
    ''        if trashBox is missing value then\<newline>'',
    ''            return "ERROR:No Trash mailbox found"\<newline>'',
    ''        end if\<newline>'',
    ''\<newline>'',
    ''        -- Find the message\<newline>'',
    ''        set foundMsg to missing value\<newline>'',
    ''        repeat with mb in mailboxes of targetAccount\<newline>'',
    ''            try\<newline>'',
    ''                set msgs to (messages of mb whose subject contains "'', safeSubject, ''" and sender contains "'', safeSender, ''")\<newline>'',
    ''                if (count of msgs) > 0 then\<newline>'',
    ''                    set foundMsg to item 1 of msgs\<newline>'',
    ''                    exit repeat\<newline>'',
    ''                end if\<newline>'',
    ''            end try\<newline>'',
    ''        end repeat\<newline>'',
    ''\<newline>'',
    ''        if foundMsg is missing value then\<newline>'',
    ''            return "ERROR:Message not found"\<newline>'',
    ''        end if\<newline>'',
    ''\<newline>'',
    ''        -- Move to trash\<newline>'',
    ''        move foundMsg to trashBox\<newline>'',
    ''        return "SUCCESS:Message deleted"\<newline>'',
    ''    on error errMsg\<newline>'',
    ''        return "ERROR:" & errMsg\<newline>'',
    ''    end try\<newline>'',
    ''end tell'']\<close>

definition mark_read_script :: "string \<Rightarrow> string \<Rightarrow> string \<Rightarrow> string" where
  \<open>mark_read_script safeAccount safeSubject safeSender = concat
   [''\<newline>'',
    ''tell application "Mail"\<newline>'',
    ''    try\<newline>'',
    ''        set targetAccount to first account whose name is "'', safeAccount, ''"\<newline>'',
    ''\<newline>'',
    ''        -- Find the message\<newline>'',
    ''        set foundMsg to missing value\<newline>'',
    ''        repeat with mb in mailboxes of targetAccount\<newline>'',
    ''            try\<newline>'',
    ''                set msgs to (messages of mb whose subject contains "'', safeSubject, ''" and sender contains "'', safeSender, ''")\<newline>'',
    ''                if (count of msgs) > 0 then\<newline>'',
    ''                    set foundMsg to item 1 of msgs\<newline>'',
    ''                    exit repeat\<newline>'',
    ''                end if\<newline>'',
    ''            end try\<newline>'',
    ''        end repeat\<newline>'',
    ''\<newline>'',
    ''        if foundMsg is missing value then\<newline>'',
    ''            return "ERROR:Message not found"\<newline>'',
    ''        end if\<newline>'',
    ''\<newline>'',
    ''        -- Mark as read\<newline>'',
    ''        set read status of foundMsg to true\<newline>'',
    ''        return "SUCCESS:Message marked as read"\<newline>'',
    ''    on error errMsg\<newline>'',
    ''        return "ERROR:" & errMsg\<newline>'',
    ''    end try\<newline>'',
    ''end tell'']\<close>

definition sentinel_result :: "jsval \<Rightarrow> OperationResult" where
  \<comment> \<open>the branch on the sentinel prefix shared by archive, delete and mark-as-read\<close>
  "sentinel_result result =
     (case result of
        JStr s \<Rightarrow>
          if startsWith s ''SUCCESS:'' then \<lparr>message = substring_from s 8, success = True\<rparr>
          else if startsWith s ''ERROR:'' then \<lparr>message = substring_from s 6, success = False\<rparr>
          else \<lparr>message = ''Unknown response from Mail'', success = False\<rparr>
      | _ \<Rightarrow> \<lparr>message = ''Unknown response from Mail'', success = False\<rparr>)"

definition archiveEmail :: "env \<Rightarrow> string \<Rightarrow> string \<Rightarrow> string \<Rightarrow> OperationResult io" where
  "archiveEmail e account subject' sender' =
     io_catch
       (io_bind (requestMailAccess e) (\<lambda>accessResult.
          if \<not> hasAccess accessResult then io_throw (Error (message accessResult))
          else
            let safeAccount = escape_quotes account;
                safeSubject = escape_backslashes (escape_quotes subject');
                safeSender = escape_quotes sender';
                script = archive_script safeAccount safeSubject safeSender
            in io_bind (runAppleScript e script) (\<lambda>result. io_return (sentinel_result result))))
       (\<lambda>error.
          io_return \<lparr>message = ''Error archiving email: '' @ error_message error, success = False\<rparr>)"

definition deleteEmail :: "env \<Rightarrow> string \<Rightarrow> string \<Rightarrow> string \<Rightarrow> OperationResult io" where
  "deleteEmail e account subject' sender' =
     io_catch
       (io_bind (requestMailAccess e) (\<lambda>accessResult.
          if \<not> hasAccess accessResult then io_throw (Error (message accessResult))
          else
            let safeAccount = escape_quotes account;
                safeSubject = escape_backslashes (escape_quotes subject');
                safeSender = escape_quotes sender';
                script = delete_script safeAccount safeSubject safeSender
            in io_bind (runAppleScript e script) (\<lambda>result. io_return (sentinel_result result))))
       (\<lambda>error.
          io_return \<lparr>message = ''Error deleting email: '' @ error_message error, success = False\<rparr>)"

definition markAsRead :: "env \<Rightarrow> string \<Rightarrow> string \<Rightarrow> string \<Rightarrow> OperationResult io" where
  "markAsRead e account subject' sender' =
     io_catch
       (io_bind (requestMailAccess e) (\<lambda>accessResult.
          if \<not> hasAccess accessResult then io_throw (Error (message accessResult))
          else
            let safeAccount = escape_quotes account;
                safeSubject = escape_backslashes (escape_quotes subject');
                safeSender = escape_quotes sender';
                script = mark_read_script safeAccount safeSubject safeSender
            in io_bind (runAppleScript e script) (\<lambda>result. io_return (sentinel_result result))))
       (\<lambda>error.
          io_return \<lparr>message = ''Error marking email as read: '' @ error_message error, success = False\<rparr>)"

section \<open>Reply detection\<close>

definition canon_char :: "char \<Rightarrow> char" where
  \<comment> \<open>the case folding of a regular expression with the \<open>i\<close> flag: the upper-case form, when
     that is again a single code unit of the range\<close>
  "canon_char c =
     (let n = (of_char c :: nat)
      in if (97 \<le> n \<and> n \<le> 122) \<or> (224 \<le> n \<and> n \<le> 254 \<and> n \<noteq> 247) then char_of (n - 32) else c)"

definition matches_ci :: "string \<Rightarrow> string \<Rightarrow> bool" where
  \<comment> \<open>the literal \<open>p\<close> matches at the start of \<open>s\<close>, ignoring case\<close>
  "matches_ci p s = (length p \<le> length s \<and> map canon_char (take (length p) s) = map canon_char p)"

definition strip_reply_prefix :: "string \<Rightarrow> string" where
  \<comment> \<open>\<open>.replace(/^(Re:|RE:|Fwd:|FWD:)\s*/i, '')\<close>: the alternatives are tried in order at
     the start of the text, then all the white space that follows is taken\<close>
  "strip_reply_prefix s =
     (case find (\<lambda>p. matches_ci p s) [''Re:'', ''RE:'', ''Fwd:'', ''FWD:''] of
        None \<Rightarrow> s
      | Some p \<Rightarrow> dropWhile is_space (drop (length p) s))"

definition angle_group_at :: "string \<Rightarrow> string option" where
  \<comment> \<open>the rest of the pattern, \<open>([^>]+)>\<close>, matched right after an opening bracket: the
     longest run without a closing bracket, which must be non-empty and end at one\<close>
  "angle_group_at cs =
     (let g = takeWhile (\<lambda>c. c \<noteq> CHR ''>'') cs;
          r = dropWhile (\<lambda>c. c \<noteq> CHR ''>'') cs
      in if g \<noteq> [] \<and> r \<noteq> [] then Some g else None)"

fun match_angle :: "string \<Rightarrow> string option" where
  \<comment> \<open>group 1 of the leftmost match of \<open>/<([^>]+)>/\<close>\<close>
  "match_angle [] = None"
| "match_angle (c # cs) =
     (if c = CHR ''<''
      then (case angle_group_at cs of Some g \<Rightarrow> Some g | None \<Rightarrow> match_angle cs)
      else match_angle cs)"

definition reply_subject_pattern :: "string \<Rightarrow> string" where
  \<comment> \<open>\<open>safeSubject\<close>\<close>
  "reply_subject_pattern originalSubject =
     escape_backslashes (escape_quotes (strip_reply_prefix originalSubject))"

definition reply_recipient_pattern :: "string \<Rightarrow> string" where
  \<comment> \<open>\<open>senderEmail\<close>: \<open>emailMatch\<close> is the match or \<open>[null, originalSender]\<close>\<close>
  "reply_recipient_pattern originalSender =
     (let emailMatch1 = (case match_angle originalSender of Some g \<Rightarrow> g | None \<Rightarrow> originalSender)
      in escape_quotes (toLowerCase (if emailMatch1 \<noteq> [] then emailMatch1 else originalSender)))"

definition reply_result :: "jsval \<Rightarrow> ReplyResult" where
  "reply_result result =
     (case result of
        JStr s \<Rightarrow>
          if startsWith s ''REPLIED:''
          then \<lparr>message = ''Reply found'', replied = True, replySentAt = Some (substring_from s 8)\<rparr>
          else if s = ''NOREPLYFOUND''
          then \<lparr>message = ''No reply found'', replied = False, replySentAt = None\<rparr>
          else if startsWith s ''ERROR:''
          then \<lparr>message = substring_from s 6, replied = False, replySentAt = None\<rparr>
          else \<lparr>message = ''Unknown response from Mail'', replied = False, replySentAt = None\<rparr>
      | _ \<Rightarrow> \<lparr>message = ''Unknown response from Mail'', replied = False, replySentAt = None\<rparr>)"

definition replied_script :: "string \<Rightarrow> string \<Rightarrow> string \<Rightarrow> string" where
  \<open>replied_script safeAccount safeSubject senderEmail = concat
   [''\<newline>'',
    ''tell application "Mail"\<newline>'',
    ''    try\<newline>'',
    ''        set targetAccount to first account whose name is "'', safeAccount, ''"\<newline>'',
    ''\<newline>'',
    ''        -- Find Sent mailbox (different names: "Sent", "Sent Messages", "[Gmail]/Sent Mail")\<newline>'',
    ''        set sentBox to missing value\<newline>'',
    ''        repeat with mb in mailboxes of targetAccount\<newline>'',
    ''            set mbName to name of mb\<newline>'',
    ''            if mbName is "Sent" or mbName is "Sent Messages" or mbName contains "Sent Mail" or mbName is "[Gmail]/Sent Mail" then\<newline>'',
    ''                set sentBox to mb\<newline>'',
    ''                exit repeat\<newline>'',
    ''            end if\<newline>'',
    ''        end repeat\<newline>'',
    ''\<newline>'',
    ''        if sentBox is missing value then\<newline>'',
    ''            return "ERROR:Could not find Sent mailbox"\<newline>'',
    ''        end if\<newline>'',
    ''\<newline>'',
    ''        -- Search for messages with matching subject pattern sent to the original sender\<newline>'',
    ''        set foundReply to false\<newline>'',
    ''        set replyDate to ""\<newline>'',
    ''        set subjectPattern to "'', safeSubject, ''"\<newline>'',
    ''        set recipientPattern to "'', senderEmail, ''"\<newline>'',
    ''\<newline>'',
    ''        repeat with msg in messages of sentBox\<newline>'',
    ''            try\<newline>'',
    ''                set msgSubject to subject of msg\<newline>'',
    ''                -- Check if subject matches (contains the original subject, accounting for Re: prefixes)\<newline>'',
    ''                if msgSubject contains subjectPattern then\<newline>'',
    ''                    -- Check if any recipient matches the original sender\<newline>'',
    ''                    set msgRecipients to recipients of msg\<newline>'',
    ''                    repeat with recip in msgRecipients\<newline>'',
    ''                        set recipAddr to address of recip\<newline>'',
    ''                        if recipAddr contains recipientPattern then\<newline>'',
    ''                            set foundReply to true\<newline>'',
    ''                            set replyDate to (date sent of msg) as string\<newline>'',
    ''                            exit repeat\<newline>'',
    ''                        end if\<newline>'',
    ''                    end repeat\<newline>'',
    ''                end if\<newline>'',
    ''                if foundReply then exit repeat\<newline>'',
    ''            on error\<newline>'',
    ''                -- Skip problematic messages\<newline>'',
    ''            end try\<newline>'',
    ''        end repeat\<newline>'',
    ''\<newline>'',
    ''        if foundReply then\<newline>'',
    ''            return "REPLIED:" & replyDate\<newline>'',
    ''        else\<newline>'',
    ''            return "NOREPLYFOUND"\<newline>'',
    ''        end if\<newline>'',
    ''    on error errMsg\<newline>'',
    ''        return "ERROR:" & errMsg\<newline>'',
    ''    end try\<newline>'',
    ''end tell'']\<close>

definition checkIfReplied :: "env \<Rightarrow> string \<Rightarrow> string \<Rightarrow> string \<Rightarrow> ReplyResult io" where
  "checkIfReplied e account originalSubject originalSender =
     io_catch
       (io_bind (requestMailAccess e) (\<lambda>accessResult.
          if \<not> hasAccess accessResult then io_throw (Error (message accessResult))
          else
            let safeAccount = escape_quotes account;
                safeSubject = reply_subject_pattern originalSubject;
                senderEmail = reply_recipient_pattern originalSender;
                script = replied_script safeAccount safeSubject senderEmail
            in io_bind (runAppleScript e script) (\<lambda>result. io_return (reply_result result))))
       (\<lambda>error.
          io_return \<lparr>message = ''Error checking for reply: '' @ error_message error,
                      replied = False, replySentAt = None\<rparr>)"


section \<open>Notions used to state the properties\<close>

definition granted :: "env \<Rightarrow> world \<Rightarrow> bool" where
  \<comment> \<open>the access probe of \<open>checkMailAccess\<close> succeeds in world \<open>w\<close>\<close>
  "granted e w = (case interp e w mail_access_script of Inr _ \<Rightarrow> True | Inl _ \<Rightarrow> False)"

definition probed :: "world \<Rightarrow> world" where
  \<comment> \<open>the world after a successful access probe\<close>
  "probed w = invoked mail_access_script w"

definition refused :: "env \<Rightarrow> world \<Rightarrow> world" where
  \<comment> \<open>the world after a failed access probe: the probe and the line it logs\<close>
  "refused e w =
     (case interp e w mail_access_script of
        Inl err \<Rightarrow> emit (ConsoleError (''Cannot access Mail app: '' @ error_message err)) (probed w)
      | Inr _ \<Rightarrow> probed w)"

definition blank :: "string \<Rightarrow> bool" where
  \<comment> \<open>empty or white space only\<close>
  "blank s = list_all is_space s"

definition world0 :: world where
  "world0 = \<lparr>files = Map.empty, trace = []\<rparr>"

definition plain_number_text :: "jsnum \<Rightarrow> string" where
  \<comment> \<open>a stand-in for the runtime's text of a number: exact for the integral numbers of
     magnitude below \<open>10^21\<close> (decimal digits, a minus sign if negative), for not-a-number
     and for the infinities; the examples use no other number\<close>
  "plain_number_text n =
     (case n of
        NaN \<Rightarrow> ''NaN''
      | NegInf \<Rightarrow> ''-Infinity''
      | PosInf \<Rightarrow> ''Infinity''
      | Finite r \<Rightarrow>
          if r = of_int \<lfloor>r\<rfloor> \<and> \<bar>r\<bar> < 10 ^ 21
          then (if r < 0 then CHR ''-'' # show_nat (nat (- \<lfloor>r\<rfloor>)) else show_nat (nat \<lfloor>r\<rfloor>))
          else ''?'')"

definition fake_env :: "(exn + jsval) \<Rightarrow> env" where
  \<comment> \<open>a fake invoker: the access probe (the first call) succeeds, every later call gets \<open>r\<close>\<close>
  "fake_env r =
     \<lparr>interp = (\<lambda>w script. if invocations w = [] then Inr (JStr ''Mail'') else r),
      date_now = Finite 1700000000000,
      number_text = plain_number_text,
      date_string = ''Tue Nov 14 2023 22:13:20 GMT+0000 (Coordinated Universal Time)'',
      write_error = (\<lambda>_. None),
      unlink_error = (\<lambda>_. None)\<rparr>"

definition locked_env :: env where
  \<comment> \<open>a fake invoker that refuses every call, the access probe included\<close>
  "locked_env =
     \<lparr>interp = (\<lambda>w script. Inl (Error ''Not authorized to send Apple events to Mail.'')),
      date_now = Finite 1700000000000,
      number_text = plain_number_text,
      date_string = ''Tue Nov 14 2023 22:13:20 GMT+0000 (Coordinated Universal Time)'',
      write_error = (\<lambda>_. None),
      unlink_error = (\<lambda>_. None)\<rparr>"

definition sendMail_script :: "env \<Rightarrow> string \<Rightarrow> string \<Rightarrow> string option \<Rightarrow> string option \<Rightarrow> string" where
  \<comment> \<open>the script that \<open>sendMail\<close> generates\<close>
  "sendMail_script e subject' to cc bcc =
     send_script (tmp_file e) (escape_quotes subject') (escape_quotes to) (cc_clause cc) (bcc_clause bcc)"

definition fails :: "env \<Rightarrow> world \<Rightarrow> string \<Rightarrow> bool" where
  \<comment> \<open>the interpreter raises an error when handed \<open>script\<close> in world \<open>w\<close>\<close>
  "fails e w script = (case interp e w script of Inl _ \<Rightarrow> True | Inr _ \<Rightarrow> False)"

definition staged :: "env \<Rightarrow> string \<Rightarrow> world \<Rightarrow> world" where
  \<comment> \<open>the world in which \<open>sendMail\<close> runs its script: access probed, body file written\<close>
  "staged e body w =
     emit (WriteFile (tmp_file e) (trim body))
       ((probed w)\<lparr>files := (files (probed w))(tmp_file e \<mapsto> trim body)\<rparr>)"

definition rethrown :: "string \<Rightarrow> world \<Rightarrow> (exn + string) \<times> world" where
  \<comment> \<open>what the catch block of \<open>sendMail\<close> does with an error of message \<open>m\<close>\<close>
  "rethrown m w =
     (Inl (Error (''Error sending email: '' @ m)),
      emit (ConsoleError (''Error sending email: '' @ m)) w)"

definition cleaned :: "env \<Rightarrow> world \<Rightarrow> world" where
  \<comment> \<open>the world after the best-effort removal of the body file\<close>
  "cleaned e w =
     (case files w (tmp_file e) of
        None \<Rightarrow> w
      | Some _ \<Rightarrow>
          (case unlink_error e (tmp_file e) of
             Some _ \<Rightarrow> w
           | None \<Rightarrow> emit (Unlink (tmp_file e)) (w\<lparr>files := (files w)(tmp_file e := None)\<rparr>)))"

definition spec_escape :: "string \<Rightarrow> string" where
  \<comment> \<open>the escaping in the words of the specification: embedded quote characters doubled,
     then backslashes escaped\<close>
  \<open>spec_escape s =
     replace_all_char (CHR 0x5C) [CHR 0x5C, CHR 0x5C] (replace_all_char (CHR ''"'') [CHR ''"'', CHR ''"''] s)\<close>

definition escaped_with :: "string \<Rightarrow> string \<Rightarrow> string \<Rightarrow> string" where
  \<comment> \<open>the text \<open>s\<close> with \<open>q\<close> in the place of every quote character, \<open>b\<close> in the place of every
     backslash, and every other character kept\<close>
  \<open>escaped_with q b s =
     concat (map (\<lambda>c. if c = CHR ''"'' then q else if c = CHR 0x5C then b else [c]) s)\<close>

definition reply_address :: "string \<Rightarrow> string" where
  \<comment> \<open>the address that \<open>checkIfReplied\<close> takes from the sender: the first bracketed group, or
     the sender as given\<close>
  "reply_address originalSender =
     (case match_angle originalSender of
        Some g \<Rightarrow> if g \<noteq> [] then g else originalSender
      | None \<Rightarrow> originalSender)"

definition record_message :: "string \<Rightarrow> string \<Rightarrow> string list \<Rightarrow> EmailMessage" where
  \<comment> \<open>the message of a record with at least four fields, in the words of the specification:
     a missing (absent or empty) subject, sender, date or content gets its placeholder\<close>
  "record_message now account fs =
     \<lparr>subject = (if fs ! 0 = [] then ''No subject'' else fs ! 0),
      sender = (if fs ! 1 = [] then ''Unknown sender'' else fs ! 1),
      dateSent = (if fs ! 2 = [] then now else fs ! 2),
      content = (if length fs < 5 \<or> fs ! 4 = [] then ''[Content not available]'' else fs ! 4),
      isRead = (fs ! 3 = ''true''),
      mailbox = account @ '' - INBOX''\<rparr>"

fun join :: "string \<Rightarrow> string list \<Rightarrow> string" where
  "join sep [] = []"
| "join sep [x] = x"
| "join sep (x # y # ys) = x @ sep @ join sep (y # ys)"

definition encode_reply :: "string list list \<Rightarrow> string" where
  \<comment> \<open>the reply that the script of \<open>getLatestMails\<close> builds from the messages it reads: the
     fields of a message joined by the field delimiter, each message closed by the record
     delimiter\<close>
  "encode_reply records = concat (map (\<lambda>fs. join FIELD_DELIM fs @ DELIM) records)"

fun lone_brackets :: "string \<Rightarrow> bool" where
  \<comment> \<open>every opening angle bracket of the text is followed by a character that is not one:
     such a text, as \<open>Name <address>\<close> is, cannot run into a delimiter\<close>
  "lone_brackets [] = True"
| "lone_brackets [c] = (c \<noteq> CHR ''<'')"
| "lone_brackets (c # d # cs) = ((c \<noteq> CHR ''<'' \<or> d \<noteq> CHR ''<'') \<and> lone_brackets (d # cs))"



section \<open>Effects of the access gate\<close>

lemmas io_defs = io_catch_def io_bind_def io_return_def io_throw_def

lemma invocations_emit [simp]:
  "invocations (emit ev w) = invocations w @ (case ev of Invoke s _ \<Rightarrow> [s] | _ \<Rightarrow> [])"
  by (simp add: invocations_def emit_def)

lemma files_emit [simp]: "files (emit ev w) = files w"
  by (simp add: emit_def)

lemma trace_emit [simp]: "trace (emit ev w) = trace w @ [ev]"
  by (simp add: emit_def)

lemma invocations_invoked [simp]: "invocations (invoked script w) = invocations w @ [script]"
  by (simp add: invoked_def)

lemma files_invoked [simp]: "files (invoked script w) = files w"
  by (simp add: invoked_def)

lemma trace_invoked [simp]: "trace (invoked script w) = trace w @ [Invoke script (files w)]"
  by (simp add: invoked_def)

lemma invocations_probed [simp]: "invocations (probed w) = invocations w @ [mail_access_script]"
  by (simp add: probed_def)

lemma invocations_refused [simp]: "invocations (refused e w) = invocations w @ [mail_access_script]"
  by (simp add: refused_def split: sum.splits)

lemma files_probed [simp]: "files (probed w) = files w"
  by (simp add: probed_def)

lemma files_refused [simp]: "files (refused e w) = files w"
  by (simp add: refused_def split: sum.splits)

lemma trace_probed [simp]: "trace (probed w) = trace w @ [Invoke mail_access_script (files w)]"
  by (simp add: probed_def)

lemma requestMailAccess_granted:
  "granted e w \<Longrightarrow>
   requestMailAccess e w =
     (Inr \<lparr>message = ''Mail access is already granted.'', hasAccess = True\<rparr>, probed w)"
  by (auto simp: requestMailAccess_def checkMailAccess_def io_defs runAppleScript_def granted_def
        probed_def split: sum.splits)

lemma requestMailAccess_refused:
  "\<not> granted e w \<Longrightarrow>
   requestMailAccess e w = (Inr \<lparr>message = access_instructions, hasAccess = False\<rparr>, refused e w)"
  by (auto simp: requestMailAccess_def checkMailAccess_def io_defs runAppleScript_def granted_def
        probed_def refused_def console_error_def split: sum.splits)

lemma fake_granted: "granted (fake_env r) world0"
  by (simp add: granted_def fake_env_def world0_def invocations_def)

lemma locked_not_granted: "\<not> granted locked_env w"
  by (simp add: granted_def locked_env_def)

lemma fake_interp_probed [simp]: "interp (fake_env r) (probed world0) script = r"
  by (simp add: fake_env_def world0_def probed_def invoked_def emit_def invocations_def)

section \<open>The unread and search listings are always empty\<close>

lemma getUnreadMails_empty: "fst (getUnreadMails e limit w) = Inr []"
  by (cases "granted e w")
     (auto simp: getUnreadMails_def io_defs requestMailAccess_granted requestMailAccess_refused
        runAppleScript_def console_error_def result_startsWith_def Let_def
        split: sum.splits prod.splits jsval.splits)

lemma searchMails_empty: "fst (searchMails e searchTerm limit w) = Inr []"
  by (cases "granted e w")
     (auto simp: searchMails_def io_defs requestMailAccess_granted requestMailAccess_refused
        runAppleScript_def console_error_def result_startsWith_def Let_def
        split: sum.splits prod.splits jsval.splits)

text \<open>
  C5: for every input, every world and every behaviour of the interpreter (a reply that
  starts with \<open>SUCCESS:\<close> included), \<open>getUnreadMails\<close> and \<open>searchMails\<close> return the empty
  list.
\<close>

theorem unread_and_search_return_empty:
  "fst (getUnreadMails e limit w) = Inr [] \<and> fst (searchMails e searchTerm limit' w) = Inr []"
  by (simp add: getUnreadMails_empty searchMails_empty)

theorem unread_and_search_return_empty_witness:
  "fst (getUnreadMails (fake_env (Inr (JStr ''SUCCESS:3''))) (Finite 10) world0) = Inr [] \<and>
   fst (searchMails (fake_env (Inr (JStr ''SUCCESS:3''))) ''invoice'' (Finite 10) world0) = Inr []"
  using unread_and_search_return_empty
    [of "fake_env (Inr (JStr ''SUCCESS:3''))" "Finite 10" world0 "''invoice''" "Finite 10"]
  by simp

section \<open>Blank texts\<close>

lemma dropWhile_all_iff: "(\<forall>x\<in>set (dropWhile P s). P x) \<longleftrightarrow> dropWhile P s = []"
proof
  assume all: "\<forall>x\<in>set (dropWhile P s). P x"
  show "dropWhile P s = []"
  proof (rule ccontr)
    assume ne: "dropWhile P s \<noteq> []"
    then have "\<not> P (hd (dropWhile P s))" by (rule hd_dropWhile)
    moreover from ne have "hd (dropWhile P s) \<in> set (dropWhile P s)" by simp
    ultimately show False using all by blast
  qed
qed (auto dest: set_dropWhileD)

lemma trim_Nil_iff: "trim s = [] \<longleftrightarrow> blank s"
  by (simp add: trim_def blank_def dropWhile_all_iff list_all_iff)

lemma blank_Nil [simp]: "blank []"
  by (simp add: blank_def)

lemma blank_falsy: "blank s \<Longrightarrow> (s = [] \<or> trim s = []) = True"
  by (simp add: trim_Nil_iff)

lemma not_blank_falsy: "\<not> blank s \<Longrightarrow> (s = [] \<or> trim s = []) = False"
  by (auto simp: trim_Nil_iff)

section \<open>Read operations never throw\<close>

lemmas read_op_simps = io_defs requestMailAccess_granted requestMailAccess_refused
  runAppleScript_def console_error_def Let_def fails_def

lemma getMailboxes_refused: "\<not> granted e w \<Longrightarrow> fst (getMailboxes e w) = Inr []"
  by (simp add: getMailboxes_def read_op_simps)

lemma getMailboxes_fails: "fails e (probed w) mailboxes_script \<Longrightarrow> fst (getMailboxes e w) = Inr []"
  by (cases "granted e w") (auto simp: getMailboxes_def read_op_simps split: sum.splits)

lemma getAccounts_refused: "\<not> granted e w \<Longrightarrow> fst (getAccounts e w) = Inr []"
  by (simp add: getAccounts_def read_op_simps)

lemma getAccounts_fails: "fails e (probed w) accounts_script \<Longrightarrow> fst (getAccounts e w) = Inr []"
  by (cases "granted e w") (auto simp: getAccounts_def read_op_simps split: sum.splits)

lemma getMailboxesForAccount_refused:
  "\<not> granted e w \<Longrightarrow> fst (getMailboxesForAccount e accountName w) = Inr []"
  by (simp add: getMailboxesForAccount_def read_op_simps)

lemma getMailboxesForAccount_fails:
  "fails e (probed w) (mailboxes_for_account_script (escape_quotes accountName)) \<Longrightarrow>
   fst (getMailboxesForAccount e accountName w) = Inr []"
  by (cases "granted e w") (auto simp: getMailboxesForAccount_def read_op_simps split: sum.splits)

lemma getLatestMails_refused: "\<not> granted e w \<Longrightarrow> fst (getLatestMails e account limit w) = Inr []"
  by (simp add: getLatestMails_def read_op_simps)

lemma getLatestMails_fails:
  "fails e (probed w) (latest_script (escape_quotes account) (number_text e (math_min limit MAX_EMAILS))) \<Longrightarrow>
   fst (getLatestMails e account limit w) = Inr []"
  by (cases "granted e w") (auto simp: getLatestMails_def read_op_simps split: sum.splits)

lemma getMailboxes_total: "\<exists>xs. fst (getMailboxes e w) = Inr xs"
  by (cases "granted e w")
     (auto simp: getMailboxes_def read_op_simps split: sum.splits jsval.splits)

lemma getAccounts_total: "\<exists>xs. fst (getAccounts e w) = Inr xs"
  by (cases "granted e w")
     (auto simp: getAccounts_def read_op_simps split: sum.splits jsval.splits)

lemma getMailboxesForAccount_total: "\<exists>xs. fst (getMailboxesForAccount e accountName w) = Inr xs"
  by (cases "granted e w")
     (auto simp: getMailboxesForAccount_def read_op_simps split: sum.splits jsval.splits)

lemma getLatestMails_total: "\<exists>xs. fst (getLatestMails e account limit w) = Inr xs"
  by (cases "granted e w")
     (auto simp: getLatestMails_def read_op_simps split: sum.splits jsval.splits)


section \<open>The paths of sending\<close>

lemmas send_simps = sendMail_def io_defs requestMailAccess_granted requestMailAccess_refused
  runAppleScript_def console_error_def writeFileSync_def unlinkSync_def Let_def
  blank_falsy not_blank_falsy rethrown_def sendMail_script_def

lemma sendMail_refused:
  "\<not> granted e w \<Longrightarrow>
   sendMail e to subject' body cc bcc w = rethrown access_instructions (refused e w)"
  by (simp add: send_simps)

lemma sendMail_blank_to:
  "granted e w \<Longrightarrow> blank to \<Longrightarrow>
   sendMail e to subject' body cc bcc w = rethrown ''To address is required'' (probed w)"
  by (simp add: send_simps)

lemma sendMail_blank_subject:
  "granted e w \<Longrightarrow> \<not> blank to \<Longrightarrow> blank subject' \<Longrightarrow>
   sendMail e to subject' body cc bcc w = rethrown ''Subject is required'' (probed w)"
  by (simp add: send_simps)

lemma sendMail_blank_body:
  "granted e w \<Longrightarrow> \<not> blank to \<Longrightarrow> \<not> blank subject' \<Longrightarrow> blank body \<Longrightarrow>
   sendMail e to subject' body cc bcc w = rethrown ''Email body is required'' (probed w)"
  by (simp add: send_simps)

lemma sendMail_write_error:
  "granted e w \<Longrightarrow> \<not> blank to \<Longrightarrow> \<not> blank subject' \<Longrightarrow> \<not> blank body \<Longrightarrow>
   write_error e (tmp_file e) = Some err \<Longrightarrow>
   sendMail e to subject' body cc bcc w = rethrown (error_message err) (probed w)"
  by (simp add: send_simps)

lemma sendMail_interp_error:
  "granted e w \<Longrightarrow> \<not> blank to \<Longrightarrow> \<not> blank subject' \<Longrightarrow> \<not> blank body \<Longrightarrow>
   write_error e (tmp_file e) = None \<Longrightarrow>
   interp e (staged e body w) (sendMail_script e subject' to cc bcc) = Inl err \<Longrightarrow>
   sendMail e to subject' body cc bcc w =
     rethrown (error_message err)
       (invoked (sendMail_script e subject' to cc bcc) (staged e body w))"
  by (simp add: send_simps staged_def)

lemma files_staged [simp]: "files (staged e body w) = (files w)(tmp_file e \<mapsto> trim body)"
  by (simp add: staged_def)

lemma sendMail_reply:
  "granted e w \<Longrightarrow> \<not> blank to \<Longrightarrow> \<not> blank subject' \<Longrightarrow> \<not> blank body \<Longrightarrow>
   write_error e (tmp_file e) = None \<Longrightarrow>
   interp e (staged e body w) (sendMail_script e subject' to cc bcc) = Inr result \<Longrightarrow>
   sendMail e to subject' body cc bcc w =
     (let w' = cleaned e (invoked (sendMail_script e subject' to cc bcc) (staged e body w))
      in if result = JStr ''SUCCESS''
         then (Inr (''Email sent to '' @ to @ '' with subject '' @ [CHR 0x22] @ subject' @ [CHR 0x22]), w')
         else rethrown ''Failed to send email'' w')"
  by (simp add: send_simps staged_def cleaned_def split: option.splits)

lemma invocations_staged [simp]:
  "invocations (staged e body w) = invocations w @ [mail_access_script]"
  by (simp add: staged_def invocations_def emit_def probed_def invoked_def)

lemma fake_interp_later: "invocations w \<noteq> [] \<Longrightarrow> interp (fake_env r) w script = r"
  by (simp add: fake_env_def)

lemma sendMail_returns_only_on_success:
  assumes "fst (sendMail e to subject' body cc bcc w) = Inr r"
  shows "granted e w \<and> \<not> blank to \<and> \<not> blank subject' \<and> \<not> blank body \<and>
         write_error e (tmp_file e) = None \<and>
         interp e (staged e body w) (sendMail_script e subject' to cc bcc) = Inr (JStr ''SUCCESS'')"
proof -
  have g: "granted e w"
    using assms by (cases "granted e w") (simp_all add: sendMail_refused rethrown_def)
  have t: "\<not> blank to"
    using assms g by (cases "blank to") (simp_all add: sendMail_blank_to rethrown_def)
  have s: "\<not> blank subject'"
    using assms g t by (cases "blank subject'") (simp_all add: sendMail_blank_subject rethrown_def)
  have b: "\<not> blank body"
    using assms g t s by (cases "blank body") (simp_all add: sendMail_blank_body rethrown_def)
  have wr: "write_error e (tmp_file e) = None"
    using assms g t s b
    by (cases "write_error e (tmp_file e)") (simp_all add: sendMail_write_error rethrown_def)
  have "interp e (staged e body w) (sendMail_script e subject' to cc bcc) = Inr (JStr ''SUCCESS'')"
  proof (cases "interp e (staged e body w) (sendMail_script e subject' to cc bcc)")
    case (Inl err)
    with assms g t s b wr show ?thesis
      by (simp add: sendMail_interp_error rethrown_def)
  next
    case (Inr result)
    with assms g t s b wr show ?thesis
      by (cases "result = JStr ''SUCCESS''") (simp_all add: sendMail_reply rethrown_def Let_def)
  qed
  with g t s b wr show ?thesis by simp
qed

lemma sendMail_outcome:
  "(\<exists>r. fst (sendMail e to subject' body cc bcc w) = Inr r) \<or>
   (\<exists>m. fst (sendMail e to subject' body cc bcc w) = Inl (Error (''Error sending email: '' @ m)))"
proof (cases "granted e w")
  case False
  then show ?thesis by (simp add: sendMail_refused rethrown_def)
next
  case g: True
  show ?thesis
  proof (cases "blank to")
    case True with g show ?thesis by (simp add: sendMail_blank_to rethrown_def)
  next
    case t: False
    show ?thesis
    proof (cases "blank subject'")
      case True with g t show ?thesis by (simp add: sendMail_blank_subject rethrown_def)
    next
      case s: False
      show ?thesis
      proof (cases "blank body")
        case True with g t s show ?thesis by (simp add: sendMail_blank_body rethrown_def)
      next
        case b: False
        show ?thesis
        proof (cases "write_error e (tmp_file e)")
          case (Some err) with g t s b show ?thesis
            by (simp add: sendMail_write_error rethrown_def)
        next
          case wr: None
          show ?thesis
          proof (cases "interp e (staged e body w) (sendMail_script e subject' to cc bcc)")
            case (Inl err) with g t s b wr show ?thesis
              by (simp add: sendMail_interp_error rethrown_def)
          next
            case (Inr result) with g t s b wr show ?thesis
              by (cases "result = JStr ''SUCCESS''")
                 (simp_all add: sendMail_reply rethrown_def Let_def)
          qed
        qed
      qed
    qed
  qed
qed

lemma sendMail_throws_on_failure:
  assumes "\<not> granted e w \<or> fails e (staged e body w) (sendMail_script e subject' to cc bcc)"
  shows "\<exists>m. fst (sendMail e to subject' body cc bcc w) = Inl (Error (''Error sending email: '' @ m))"
proof -
  have "\<not> (\<exists>r. fst (sendMail e to subject' body cc bcc w) = Inr r)"
  proof
    assume "\<exists>r. fst (sendMail e to subject' body cc bcc w) = Inr r"
    then have "granted e w \<and>
        interp e (staged e body w) (sendMail_script e subject' to cc bcc) = Inr (JStr ''SUCCESS'')"
      using sendMail_returns_only_on_success by blast
    with assms show False by (simp add: fails_def)
  qed
  with sendMail_outcome [of e to subject' body cc bcc w] show ?thesis by blast
qed

section \<open>Failures: swallowed by the read operations, re-thrown by sending\<close>

text \<open>
  C6: when the access probe is refused or the interpreter raises an error on the script of
  the operation, each of \<open>getUnreadMails\<close>, \<open>searchMails\<close>, \<open>getMailboxes\<close>, \<open>getAccounts\<close>,
  \<open>getMailboxesForAccount\<close> and \<open>getLatestMails\<close> returns the empty list, and none of them
  ever throws; \<open>sendMail\<close> throws in both situations, and it returns a value only when the
  access was granted, the arguments were valid, the body file was written and the
  interpreter answered \<open>SUCCESS\<close>.
\<close>

theorem read_failures_swallowed_send_failures_thrown:
  "(\<not> granted e w \<or> fails e (probed w) (unread_script (number_text e (math_min limit MAX_EMAILS)))
      \<longrightarrow> fst (getUnreadMails e limit w) = Inr []) \<and>
   (\<not> granted e w \<or>
    fails e (probed w) (search_script (toLowerCase searchTerm) (number_text e (math_min limit MAX_EMAILS)))
      \<longrightarrow> fst (searchMails e searchTerm limit w) = Inr []) \<and>
   (\<not> granted e w \<or> fails e (probed w) mailboxes_script \<longrightarrow> fst (getMailboxes e w) = Inr []) \<and>
   (\<not> granted e w \<or> fails e (probed w) accounts_script \<longrightarrow> fst (getAccounts e w) = Inr []) \<and>
   (\<not> granted e w \<or> fails e (probed w) (mailboxes_for_account_script (escape_quotes account))
      \<longrightarrow> fst (getMailboxesForAccount e account w) = Inr []) \<and>
   (\<not> granted e w \<or>
    fails e (probed w) (latest_script (escape_quotes account) (number_text e (math_min limit MAX_EMAILS)))
      \<longrightarrow> fst (getLatestMails e account limit w) = Inr []) \<and>
   (\<exists>xs. fst (getUnreadMails e limit w) = Inr xs) \<and>
   (\<exists>xs. fst (searchMails e searchTerm limit w) = Inr xs) \<and>
   (\<exists>xs. fst (getMailboxes e w) = Inr xs) \<and>
   (\<exists>xs. fst (getAccounts e w) = Inr xs) \<and>
   (\<exists>xs. fst (getMailboxesForAccount e account w) = Inr xs) \<and>
   (\<exists>xs. fst (getLatestMails e account limit w) = Inr xs) \<and>
   (\<not> granted e w \<or> fails e (staged e body w) (sendMail_script e subject' to cc bcc)
      \<longrightarrow> (\<exists>m. fst (sendMail e to subject' body cc bcc w) =
                  Inl (Error (''Error sending email: '' @ m)))) \<and>
   (\<forall>r. fst (sendMail e to subject' body cc bcc w) = Inr r \<longrightarrow>
      granted e w \<and> \<not> blank to \<and> \<not> blank subject' \<and> \<not> blank body \<and>
      write_error e (tmp_file e) = None \<and>
      interp e (staged e body w) (sendMail_script e subject' to cc bcc) =
        Inr (JStr ''SUCCESS''))"
proof -
  have unread: "fst (getUnreadMails e limit w) = Inr []"
    by (rule getUnreadMails_empty)
  have search: "fst (searchMails e searchTerm limit w) = Inr []"
    by (rule searchMails_empty)
  have boxes: "\<not> granted e w \<or> fails e (probed w) mailboxes_script \<longrightarrow> fst (getMailboxes e w) = Inr []"
    using getMailboxes_refused getMailboxes_fails by blast
  have accts: "\<not> granted e w \<or> fails e (probed w) accounts_script \<longrightarrow> fst (getAccounts e w) = Inr []"
    using getAccounts_refused getAccounts_fails by blast
  have mbfa: "\<not> granted e w \<or> fails e (probed w) (mailboxes_for_account_script (escape_quotes account))
      \<longrightarrow> fst (getMailboxesForAccount e account w) = Inr []"
    using getMailboxesForAccount_refused getMailboxesForAccount_fails by blast
  have latest: "\<not> granted e w \<or>
      fails e (probed w) (latest_script (escape_quotes account) (number_text e (math_min limit MAX_EMAILS)))
      \<longrightarrow> fst (getLatestMails e account limit w) = Inr []"
    using getLatestMails_refused getLatestMails_fails by blast
  have send1: "\<not> granted e w \<or> fails e (staged e body w) (sendMail_script e subject' to cc bcc)
      \<longrightarrow> (\<exists>m. fst (sendMail e to subject' body cc bcc w) =
                  Inl (Error (''Error sending email: '' @ m)))"
    using sendMail_throws_on_failure by blast
  have send2: "\<forall>r. fst (sendMail e to subject' body cc bcc w) = Inr r \<longrightarrow>
      granted e w \<and> \<not> blank to \<and> \<not> blank subject' \<and> \<not> blank body \<and>
      write_error e (tmp_file e) = None \<and>
      interp e (staged e body w) (sendMail_script e subject' to cc bcc) =
        Inr (JStr ''SUCCESS'')"
    using sendMail_returns_only_on_success by blast
  show ?thesis
    using unread search boxes accts mbfa latest send1 send2
      getMailboxes_total [of e w] getAccounts_total [of e w]
      getMailboxesForAccount_total [of e account w] getLatestMails_total [of e account limit w]
    by simp
qed

lemma not_blank_samples [simp]:
  "\<not> blank ''a@b.c''" "\<not> blank ''Hi''" "\<not> blank ''Body''" "\<not> blank '' Body ''" "\<not> blank ''iCloud''"
  by (simp_all add: blank_def is_space_def)

lemma fake_write_error [simp]: "write_error (fake_env r) p = None"
  by (simp add: fake_env_def)

lemma fake_unlink_error [simp]: "unlink_error (fake_env r) p = None"
  by (simp add: fake_env_def)

lemma fake_interp_staged [simp]: "interp (fake_env r) (staged e body world0) script = r"
  by (simp add: fake_interp_later)

theorem read_failures_swallowed_send_failures_thrown_witness:
  "\<not> granted locked_env world0 \<and>
   fst (getUnreadMails locked_env (Finite 10) world0) = Inr [] \<and>
   fst (searchMails locked_env ''invoice'' (Finite 10) world0) = Inr [] \<and>
   fst (getMailboxes locked_env world0) = Inr [] \<and>
   fst (getAccounts locked_env world0) = Inr [] \<and>
   fst (getMailboxesForAccount locked_env ''iCloud'' world0) = Inr [] \<and>
   fst (getLatestMails locked_env ''iCloud'' (Finite 10) world0) = Inr [] \<and>
   (\<exists>m. fst (sendMail locked_env ''a@b.c'' ''Hi'' ''Body'' None None world0) =
          Inl (Error (''Error sending email: '' @ m))) \<and>
   fails (fake_env (Inl (Error ''boom''))) (probed world0) accounts_script \<and>
   fst (getAccounts (fake_env (Inl (Error ''boom''))) world0) = Inr [] \<and>
   fst (getLatestMails (fake_env (Inl (Error ''boom''))) ''iCloud'' (Finite 10) world0) = Inr [] \<and>
   (\<exists>m. fst (sendMail (fake_env (Inl (Error ''boom''))) ''a@b.c'' ''Hi'' ''Body'' None None world0) =
          Inl (Error (''Error sending email: '' @ m))) \<and>
   (\<exists>r. fst (sendMail (fake_env (Inr (JStr ''SUCCESS''))) ''a@b.c'' ''Hi'' ''Body'' None None world0) =
          Inr r) \<and>
   granted (fake_env (Inr (JStr ''SUCCESS''))) world0"
proof -
  have locked: "\<not> granted locked_env world0"
    by (rule locked_not_granted)
  have boom: "fails (fake_env (Inl (Error ''boom''))) w' script"
    if "invocations w' \<noteq> []" for w' script
    using that by (simp add: fails_def fake_interp_later)
  have sent: "\<exists>r. fst (sendMail (fake_env (Inr (JStr ''SUCCESS''))) ''a@b.c'' ''Hi'' ''Body'' None None
      world0) = Inr r"
    by (simp add: sendMail_reply [where result = "JStr ''SUCCESS''"] fake_granted)
  note at_locked = read_failures_swallowed_send_failures_thrown
    [where e = locked_env and w = world0 and limit = "Finite 10" and searchTerm = "''invoice''"
       and account = "''iCloud''" and to = "''a@b.c''" and subject' = "''Hi''" and body = "''Body''"
       and cc = None and bcc = None]
  note at_boom = read_failures_swallowed_send_failures_thrown
    [where e = "fake_env (Inl (Error ''boom''))" and w = world0 and limit = "Finite 10"
       and searchTerm = "''invoice''" and account = "''iCloud''" and to = "''a@b.c''"
       and subject' = "''Hi''" and body = "''Body''" and cc = None and bcc = None]
  note at_sent = read_failures_swallowed_send_failures_thrown
    [where e = "fake_env (Inr (JStr ''SUCCESS''))" and w = world0 and limit = "Finite 10"
       and searchTerm = "''invoice''" and account = "''iCloud''" and to = "''a@b.c''"
       and subject' = "''Hi''" and body = "''Body''" and cc = None and bcc = None]
  from sent at_sent have "granted (fake_env (Inr (JStr ''SUCCESS''))) world0"
    by blast
  moreover from at_boom have
    "fst (getAccounts (fake_env (Inl (Error ''boom''))) world0) = Inr [] \<and>
     fst (getLatestMails (fake_env (Inl (Error ''boom''))) ''iCloud'' (Finite 10) world0) = Inr [] \<and>
     (\<exists>m. fst (sendMail (fake_env (Inl (Error ''boom''))) ''a@b.c'' ''Hi'' ''Body'' None None world0) =
          Inl (Error (''Error sending email: '' @ m)))"
    by (simp add: boom)
  moreover have "fails (fake_env (Inl (Error ''boom''))) (probed world0) accounts_script"
    by (simp add: boom)
  ultimately show ?thesis
    using locked at_locked sent by simp
qed

section \<open>The body file of an outgoing message\<close>

lemma last_dropWhile: "dropWhile P xs \<noteq> [] \<Longrightarrow> last (dropWhile P xs) = last xs"
  by (induction xs) (auto split: if_splits)

lemma trim_decompose:
  "\<exists>a b. s = a @ trim s @ b \<and> list_all is_space a \<and> list_all is_space b"
proof -
  define t where "t = dropWhile is_space s"
  define u where "u = dropWhile is_space (rev t)"
  have s: "s = takeWhile is_space s @ t"
    by (simp add: t_def)
  have "rev t = takeWhile is_space (rev t) @ u"
    by (simp add: u_def)
  then have "rev (rev t) = rev (takeWhile is_space (rev t) @ u)"
    by simp
  then have t: "t = rev u @ rev (takeWhile is_space (rev t))"
    by simp
  have tr: "trim s = rev u"
    by (simp add: trim_def t_def u_def)
  have a: "list_all is_space (takeWhile is_space s)"
    by (simp add: list_all_iff) (meson set_takeWhileD)
  have b: "list_all is_space (rev (takeWhile is_space (rev t)))"
    by (simp add: list_all_iff) (meson set_takeWhileD)
  from s t tr have "s = takeWhile is_space s @ trim s @ rev (takeWhile is_space (rev t))"
    by simp
  with a b show ?thesis by blast
qed

lemma trim_no_outer_space:
  assumes "trim s \<noteq> []"
  shows "\<not> is_space (hd (trim s)) \<and> \<not> is_space (last (trim s))"
proof -
  define t where "t = dropWhile is_space s"
  define u where "u = dropWhile is_space (rev t)"
  have tr: "trim s = rev u"
    by (simp add: trim_def t_def u_def)
  with assms have u: "u \<noteq> []" by simp
  then have rt: "rev t \<noteq> []" by (auto simp: u_def)
  then have t: "t \<noteq> []" by simp
  from u have "\<not> is_space (hd u)"
    unfolding u_def by (rule hd_dropWhile)
  moreover from u have "last u = last (rev t)"
    unfolding u_def by (rule last_dropWhile)
  moreover from t have "last (rev t) = hd t"
    by (simp add: last_rev)
  moreover from t have "\<not> is_space (hd t)"
    unfolding t_def by (rule hd_dropWhile)
  ultimately show ?thesis
    using u tr by (simp add: hd_rev last_rev)
qed

lemma trace_staged [simp]:
  "trace (staged e body w) =
     trace w @ [Invoke mail_access_script (files w), WriteFile (tmp_file e) (trim body)]"
  by (simp add: staged_def emit_def probed_def invoked_def)

lemma files_cleaned: "unlink_error e (tmp_file e) = None \<Longrightarrow> files (cleaned e w) (tmp_file e) = None"
  by (simp add: cleaned_def split: option.splits)

lemma trace_cleaned:
  "trace (cleaned e w) = trace w \<or> trace (cleaned e w) = trace w @ [Unlink (tmp_file e)]"
  by (simp add: cleaned_def split: option.splits)

lemma sendMail_removes_body_file_on_reply:
  assumes "granted e w" "\<not> blank to" "\<not> blank subject'" "\<not> blank body"
    and "write_error e (tmp_file e) = None" and "unlink_error e (tmp_file e) = None"
    and "interp e (staged e body w) (sendMail_script e subject' to cc bcc) = Inr result"
  shows "files (snd (sendMail e to subject' body cc bcc w)) (tmp_file e) = None"
  using assms
  by (cases "result = JStr ''SUCCESS''")
     (simp_all add: sendMail_reply Let_def rethrown_def files_cleaned)

lemma sendMail_keeps_body_file_on_error:
  assumes "granted e w" "\<not> blank to" "\<not> blank subject'" "\<not> blank body"
    and "write_error e (tmp_file e) = None"
    and "interp e (staged e body w) (sendMail_script e subject' to cc bcc) = Inl err"
  shows "files (snd (sendMail e to subject' body cc bcc w)) (tmp_file e) = Some (trim body)"
  using assms by (simp add: sendMail_interp_error rethrown_def)

lemma trim_samples [simp]: "trim ''Body'' = ''Body''" "trim '' Body '' = ''Body''"
  by (simp_all add: trim_def is_space_def)

text \<open>
  C1 (the code leaves the file behind on one exit path): \<open>sendMail\<close> with valid arguments,
  access granted and an interpreter that raises an error on the send script. The call
  throws, and the body file it wrote is still there afterwards, since the removal stands
  after the invocation inside the same \<open>try\<close> block.
\<close>

theorem sendMail_body_file_survives_interpreter_error:
  "fst (sendMail (fake_env (Inl (Error ''boom''))) ''a@b.c'' ''Hi'' ''Body'' None None world0) =
     Inl (Error ''Error sending email: boom'') \<and>
   files world0 (tmp_file (fake_env (Inl (Error ''boom'')))) = None \<and>
   files (snd (sendMail (fake_env (Inl (Error ''boom''))) ''a@b.c'' ''Hi'' ''Body'' None None world0))
     (tmp_file (fake_env (Inl (Error ''boom'')))) = Some ''Body''"
proof -
  have "files world0 (tmp_file (fake_env (Inl (Error ''boom'')))) = None"
    by (simp add: world0_def)
  then show ?thesis
    by (simp add: sendMail_interp_error [where err = "Error ''boom''"] fake_granted rethrown_def)
qed

text \<open>
  C10: when \<open>sendMail\<close> gets as far as its script (access granted, valid arguments, the
  write not failing), the call does, after the access probe, exactly this: it writes the
  body without its leading and trailing white space to the temporary file, and then runs
  its script with that file holding that text; nothing it does afterwards writes a file or
  runs a script. The text written, \<open>trim body\<close>, is not empty, neither starts nor ends with
  white space, and is the body with white space removed from both ends only.
\<close>

theorem sendMail_writes_trimmed_body:
  assumes "granted e w" "\<not> blank to" "\<not> blank subject'" "\<not> blank body"
    and "write_error e (tmp_file e) = None"
  shows "(\<exists>rest. trace (snd (sendMail e to subject' body cc bcc w)) =
            trace w @ [Invoke mail_access_script (files w),
                       WriteFile (tmp_file e) (trim body),
                       Invoke (sendMail_script e subject' to cc bcc)
                         ((files w)(tmp_file e \<mapsto> trim body))] @ rest \<and>
            (\<forall>ev \<in> set rest. \<forall>p d. ev \<noteq> WriteFile p d) \<and>
            (\<forall>ev \<in> set rest. \<forall>s fs. ev \<noteq> Invoke s fs)) \<and>
         trim body \<noteq> [] \<and> \<not> is_space (hd (trim body)) \<and> \<not> is_space (last (trim body)) \<and>
         (\<exists>a b. body = a @ trim body @ b \<and> list_all is_space a \<and> list_all is_space b)"
proof -
  let ?script = "sendMail_script e subject' to cc bcc"
  let ?w2 = "invoked ?script (staged e body w)"
  have ne: "trim body \<noteq> []"
    using assms(4) by (simp add: trim_Nil_iff)
  have tr: "\<exists>rest. trace (snd (sendMail e to subject' body cc bcc w)) =
            trace w @ [Invoke mail_access_script (files w),
                       WriteFile (tmp_file e) (trim body),
                       Invoke ?script ((files w)(tmp_file e \<mapsto> trim body))] @ rest \<and>
            (\<forall>ev \<in> set rest. \<forall>p d. ev \<noteq> WriteFile p d) \<and>
            (\<forall>ev \<in> set rest. \<forall>s fs. ev \<noteq> Invoke s fs)"
  proof (cases "interp e (staged e body w) ?script")
    case (Inl err)
    with assms show ?thesis
      by (simp add: sendMail_interp_error rethrown_def)
  next
    case (Inr result)
    have "trace (cleaned e ?w2) = trace ?w2 \<or> trace (cleaned e ?w2) = trace ?w2 @ [Unlink (tmp_file e)]"
      by (rule trace_cleaned)
    with assms Inr show ?thesis
      by (cases "result = JStr ''SUCCESS''")
         (auto simp: sendMail_reply Let_def rethrown_def)
  qed
  from tr ne trim_no_outer_space [OF ne] trim_decompose [of body] show ?thesis
    by simp
qed

theorem sendMail_writes_trimmed_body_witness:
  "granted (fake_env (Inr (JStr ''SUCCESS''))) world0 \<and>
   \<not> blank ''a@b.c'' \<and> \<not> blank ''Hi'' \<and> \<not> blank '' Body '' \<and>
   write_error (fake_env (Inr (JStr ''SUCCESS''))) (tmp_file (fake_env (Inr (JStr ''SUCCESS'')))) = None \<and>
   files world0 = Map.empty \<and> trace world0 = [] \<and>
   (\<exists>rest. trace (snd (sendMail (fake_env (Inr (JStr ''SUCCESS''))) ''a@b.c'' ''Hi'' '' Body '' None None
                world0)) =
      [Invoke mail_access_script Map.empty,
       WriteFile (tmp_file (fake_env (Inr (JStr ''SUCCESS'')))) ''Body'',
       Invoke (sendMail_script (fake_env (Inr (JStr ''SUCCESS''))) ''Hi'' ''a@b.c'' None None)
         [tmp_file (fake_env (Inr (JStr ''SUCCESS''))) \<mapsto> ''Body'']] @ rest)"
proof -
  have w0: "files world0 = Map.empty \<and> trace world0 = []"
    by (simp add: world0_def)
  note at = sendMail_writes_trimmed_body
    [where e = "fake_env (Inr (JStr ''SUCCESS''))" and w = world0 and to = "''a@b.c''"
       and subject' = "''Hi''" and body = "'' Body ''" and cc = None and bcc = None]
  have "\<exists>rest. trace (snd (sendMail (fake_env (Inr (JStr ''SUCCESS''))) ''a@b.c'' ''Hi'' '' Body '' None
                None world0)) =
      [Invoke mail_access_script Map.empty,
       WriteFile (tmp_file (fake_env (Inr (JStr ''SUCCESS'')))) ''Body'',
       Invoke (sendMail_script (fake_env (Inr (JStr ''SUCCESS''))) ''Hi'' ''a@b.c'' None None)
         [tmp_file (fake_env (Inr (JStr ''SUCCESS''))) \<mapsto> ''Body'']] @ rest"
    using at w0 by (auto simp: fake_granted)
  with w0 show ?thesis
    by (simp add: fake_granted)
qed

section \<open>Blank arguments stop an operation after the access probe\<close>

lemma searchMails_blank:
  assumes "blank searchTerm"
  shows "fst (searchMails e searchTerm limit w) = Inr [] \<and>
         invocations (snd (searchMails e searchTerm limit w)) = invocations w @ [mail_access_script] \<and>
         files (snd (searchMails e searchTerm limit w)) = files w"
  using assms
  by (cases "granted e w")
     (simp_all add: searchMails_def io_defs requestMailAccess_granted requestMailAccess_refused
        console_error_def blank_falsy)

lemma getMailboxesForAccount_blank:
  assumes "blank accountName"
  shows "fst (getMailboxesForAccount e accountName w) = Inr [] \<and>
         invocations (snd (getMailboxesForAccount e accountName w)) =
           invocations w @ [mail_access_script] \<and>
         files (snd (getMailboxesForAccount e accountName w)) = files w"
  using assms
  by (cases "granted e w")
     (simp_all add: getMailboxesForAccount_def io_defs requestMailAccess_granted
        requestMailAccess_refused console_error_def blank_falsy)

lemma sendMail_blank:
  assumes "blank to \<or> blank subject' \<or> blank body"
  shows "(\<exists>m. sendMail e to subject' body cc bcc w = rethrown m (probed w)) \<or>
         (\<exists>m. sendMail e to subject' body cc bcc w = rethrown m (refused e w))"
proof (cases "granted e w")
  case False
  then show ?thesis by (auto simp: sendMail_refused)
next
  case g: True
  show ?thesis
  proof (cases "blank to")
    case True with g show ?thesis by (auto simp: sendMail_blank_to)
  next
    case t: False
    show ?thesis
    proof (cases "blank subject'")
      case True with g t show ?thesis by (auto simp: sendMail_blank_subject)
    next
      case s: False
      with assms t have "blank body" by simp
      with g t s show ?thesis by (auto simp: sendMail_blank_body)
    qed
  qed
qed

lemma sendMail_blank_effects:
  assumes "blank to \<or> blank subject' \<or> blank body"
  shows "(\<exists>m. fst (sendMail e to subject' body cc bcc w) = Inl (Error m)) \<and>
         invocations (snd (sendMail e to subject' body cc bcc w)) =
           invocations w @ [mail_access_script] \<and>
         files (snd (sendMail e to subject' body cc bcc w)) = files w"
  using sendMail_blank [OF assms, of e cc bcc w]
  by (auto simp: rethrown_def)

text \<open>
  C3, as stated, fails: with the empty search term and a fake invoker that starts with
  no recorded call, \<open>searchMails\<close> returns the empty list, but the invoker has recorded
  one call, the access probe that the operation makes before it looks at the term.
\<close>

theorem searchMails_empty_term_records_one_call:
  "invocations world0 = [] \<and>
   fst (searchMails (fake_env (Inr (JStr ''SUCCESS:0''))) [] (Finite 10) world0) = Inr [] \<and>
   invocations (snd (searchMails (fake_env (Inr (JStr ''SUCCESS:0''))) [] (Finite 10) world0)) =
     [mail_access_script] \<and>
   length (invocations (snd (searchMails (fake_env (Inr (JStr ''SUCCESS:0''))) [] (Finite 10) world0))) = 1"
proof -
  have "invocations world0 = []"
    by (simp add: world0_def invocations_def)
  then show ?thesis
    using searchMails_blank [of "[]" "fake_env (Inr (JStr ''SUCCESS:0''))" "Finite 10" world0]
    by simp
qed

text \<open>
  C3, amended: for a blank (empty or white-space-only) search term \<open>searchMails\<close> returns
  the empty list and the only call it adds to the invoker's record is the access probe;
  the same holds for \<open>getMailboxesForAccount\<close> and a blank account name; \<open>sendMail\<close> with a
  blank \<open>to\<close>, \<open>subject\<close> or \<open>body\<close> throws, again with the access probe as its only call and
  with no file written.
\<close>

theorem blank_arguments_invoke_only_the_probe:
  "(blank searchTerm \<longrightarrow>
      fst (searchMails e searchTerm limit w) = Inr [] \<and>
      invocations (snd (searchMails e searchTerm limit w)) = invocations w @ [mail_access_script]) \<and>
   (blank accountName \<longrightarrow>
      fst (getMailboxesForAccount e accountName w) = Inr [] \<and>
      invocations (snd (getMailboxesForAccount e accountName w)) =
        invocations w @ [mail_access_script]) \<and>
   (blank to \<or> blank subject' \<or> blank body \<longrightarrow>
      (\<exists>m. fst (sendMail e to subject' body cc bcc w) = Inl (Error m)) \<and>
      invocations (snd (sendMail e to subject' body cc bcc w)) = invocations w @ [mail_access_script] \<and>
      files (snd (sendMail e to subject' body cc bcc w)) = files w)"
  using searchMails_blank [of searchTerm e limit w]
    getMailboxesForAccount_blank [of accountName e w]
    sendMail_blank_effects [of to subject' body e cc bcc w]
  by blast

theorem blank_arguments_invoke_only_the_probe_witness:
  "blank ''   '' \<and> blank [] \<and>
   fst (searchMails (fake_env (Inr (JStr ''SUCCESS:0''))) ''   '' (Finite 10) world0) = Inr [] \<and>
   invocations (snd (searchMails (fake_env (Inr (JStr ''SUCCESS:0''))) ''   '' (Finite 10) world0)) =
     invocations world0 @ [mail_access_script] \<and>
   fst (getMailboxesForAccount (fake_env (Inr (JArr []))) [] world0) = Inr [] \<and>
   invocations (snd (getMailboxesForAccount (fake_env (Inr (JArr []))) [] world0)) =
     invocations world0 @ [mail_access_script] \<and>
   (\<exists>m. fst (sendMail (fake_env (Inr (JStr ''SUCCESS''))) ''a@b.c'' ''   '' ''Body'' None None world0) =
          Inl (Error m)) \<and>
   invocations (snd (sendMail (fake_env (Inr (JStr ''SUCCESS''))) ''a@b.c'' ''   '' ''Body'' None None
     world0)) = invocations world0 @ [mail_access_script] \<and>
   files (snd (sendMail (fake_env (Inr (JStr ''SUCCESS''))) ''a@b.c'' ''   '' ''Body'' None None world0)) =
     files world0"
proof -
  have b: "blank ''   ''" "blank []"
    by (simp_all add: blank_def is_space_def)
  note search = blank_arguments_invoke_only_the_probe
    [where searchTerm = "''   ''" and e = "fake_env (Inr (JStr ''SUCCESS:0''))" and limit = "Finite 10"
       and w = world0 and accountName = "[]" and to = "''a@b.c''" and subject' = "''   ''"
       and body = "''Body''" and cc = None and bcc = None]
  note boxes = blank_arguments_invoke_only_the_probe
    [where searchTerm = "''   ''" and e = "fake_env (Inr (JArr []))" and limit = "Finite 10"
       and w = world0 and accountName = "[]" and to = "''a@b.c''" and subject' = "''   ''"
       and body = "''Body''" and cc = None and bcc = None]
  note send = blank_arguments_invoke_only_the_probe
    [where searchTerm = "''   ''" and e = "fake_env (Inr (JStr ''SUCCESS''))" and limit = "Finite 10"
       and w = world0 and accountName = "[]" and to = "''a@b.c''" and subject' = "''   ''"
       and body = "''Body''" and cc = None and bcc = None]
  from b search boxes send show ?thesis
    by simp
qed

section \<open>The two shapes of a listing reply\<close>

lemma getMailboxes_reply:
  assumes "granted e w" and "interp e (probed w) mailboxes_script = Inr result"
  shows "fst (getMailboxes e w) =
           Inr (case result of
                  JArr names \<Rightarrow> filter_names names
                | JStr s \<Rightarrow> if blank s then [] else split_names s
                | _ \<Rightarrow> [])"
  using assms
  by (simp add: getMailboxes_def io_defs requestMailAccess_granted runAppleScript_def trim_Nil_iff
        split: jsval.splits)

lemma getAccounts_reply:
  assumes "granted e w" and "interp e (probed w) accounts_script = Inr result"
  shows "fst (getAccounts e w) =
           Inr (case result of
                  JArr names \<Rightarrow> filter_names names
                | JStr s \<Rightarrow> if blank s then [] else split_names s
                | _ \<Rightarrow> [])"
  using assms
  by (simp add: getAccounts_def io_defs requestMailAccess_granted runAppleScript_def trim_Nil_iff
        split: jsval.splits)

lemma getMailboxesForAccount_reply:
  assumes "granted e w" and "\<not> blank accountName"
    and "interp e (probed w) (mailboxes_for_account_script (escape_quotes accountName)) = Inr result"
  shows "fst (getMailboxesForAccount e accountName w) =
           Inr (case result of JArr names \<Rightarrow> filter_names names | _ \<Rightarrow> [])"
  using assms
  by (simp add: getMailboxesForAccount_def io_defs requestMailAccess_granted runAppleScript_def
        not_blank_falsy split: jsval.splits)

lemma filter_names_spec:
  "filter_names vs = [s. JStr s \<leftarrow> vs, s \<noteq> []]"
  by (induction vs) (auto simp: filter_names_def truthy_def is_string_def string_of_def split: jsval.splits)

lemma split_names_sample: "split_names ''INBOX, Sent, ,Trash'' = [''INBOX'', ''Sent'', ''Trash'']"
  by (simp add: split_names_def js_split_def trim_def is_space_def)

text \<open>
  C8 (the code misses one shape in one operation): the same comma-joined text reply gives
  the mailbox names in \<open>getMailboxes\<close> and \<open>getAccounts\<close>, but \<open>getMailboxesForAccount\<close>,
  which only looks for a native list, returns the empty list for it.
\<close>

theorem getMailboxesForAccount_ignores_text_reply:
  "fst (getMailboxes (fake_env (Inr (JStr ''INBOX, Sent, ,Trash''))) world0) =
     Inr [''INBOX'', ''Sent'', ''Trash''] \<and>
   fst (getAccounts (fake_env (Inr (JStr ''INBOX, Sent, ,Trash''))) world0) =
     Inr [''INBOX'', ''Sent'', ''Trash''] \<and>
   fst (getMailboxesForAccount (fake_env (Inr (JStr ''INBOX, Sent, ,Trash''))) ''iCloud'' world0) =
     Inr [] \<and>
   fst (getMailboxesForAccount (fake_env (Inr (JArr [JStr ''INBOX'', JStr [], JNum 7, JStr ''Sent''])))
          ''iCloud'' world0) = Inr [''INBOX'', ''Sent'']"
proof -
  have nb: "\<not> blank ''INBOX, Sent, ,Trash''"
    by (simp add: blank_def is_space_def)
  show ?thesis
    by (simp add: getMailboxes_reply [where result = "JStr ''INBOX, Sent, ,Trash''"]
          getAccounts_reply [where result = "JStr ''INBOX, Sent, ,Trash''"]
          getMailboxesForAccount_reply [where result = "JStr ''INBOX, Sent, ,Trash''"]
          getMailboxesForAccount_reply
            [where result = "JArr [JStr ''INBOX'', JStr [], JNum 7, JStr ''Sent'']"]
          fake_granted nb split_names_sample filter_names_spec)
qed

section \<open>The scripts handed to the interpreter\<close>

lemmas script_simps = io_defs requestMailAccess_granted runAppleScript_def console_error_def Let_def

lemma getUnreadMails_script:
  "granted e w \<Longrightarrow>
   invocations (snd (getUnreadMails e limit w)) =
     invocations w @ [mail_access_script, unread_script (number_text e (math_min limit MAX_EMAILS))]"
  by (auto simp: getUnreadMails_def script_simps result_startsWith_def
        split: sum.splits jsval.splits)

lemma searchMails_script:
  "granted e w \<Longrightarrow> \<not> blank searchTerm \<Longrightarrow>
   invocations (snd (searchMails e searchTerm limit w)) =
     invocations w @
       [mail_access_script, search_script (toLowerCase searchTerm) (number_text e (math_min limit MAX_EMAILS))]"
  by (auto simp: searchMails_def script_simps result_startsWith_def not_blank_falsy
        split: sum.splits jsval.splits)

lemma getLatestMails_script:
  "granted e w \<Longrightarrow>
   invocations (snd (getLatestMails e account limit w)) =
     invocations w @
       [mail_access_script, latest_script (escape_quotes account) (number_text e (math_min limit MAX_EMAILS))]"
  by (auto simp: getLatestMails_def script_simps split: sum.splits jsval.splits)

lemma getMailboxesForAccount_script:
  "granted e w \<Longrightarrow> \<not> blank accountName \<Longrightarrow>
   invocations (snd (getMailboxesForAccount e accountName w)) =
     invocations w @ [mail_access_script, mailboxes_for_account_script (escape_quotes accountName)]"
  by (auto simp: getMailboxesForAccount_def script_simps not_blank_falsy
        split: sum.splits jsval.splits)

lemma archiveEmail_script:
  "granted e w \<Longrightarrow>
   invocations (snd (archiveEmail e account subject' sender' w)) =
     invocations w @
       [mail_access_script,
        archive_script (escape_quotes account) (escape_backslashes (escape_quotes subject'))
          (escape_quotes sender')]"
  by (auto simp: archiveEmail_def script_simps split: sum.splits)

lemma deleteEmail_script:
  "granted e w \<Longrightarrow>
   invocations (snd (deleteEmail e account subject' sender' w)) =
     invocations w @
       [mail_access_script,
        delete_script (escape_quotes account) (escape_backslashes (escape_quotes subject'))
          (escape_quotes sender')]"
  by (auto simp: deleteEmail_def script_simps split: sum.splits)

lemma markAsRead_script:
  "granted e w \<Longrightarrow>
   invocations (snd (markAsRead e account subject' sender' w)) =
     invocations w @
       [mail_access_script,
        mark_read_script (escape_quotes account) (escape_backslashes (escape_quotes subject'))
          (escape_quotes sender')]"
  by (auto simp: markAsRead_def script_simps split: sum.splits)

lemma checkIfReplied_script:
  "granted e w \<Longrightarrow>
   invocations (snd (checkIfReplied e account originalSubject originalSender w)) =
     invocations w @
       [mail_access_script,
        replied_script (escape_quotes account) (reply_subject_pattern originalSubject)
          (reply_recipient_pattern originalSender)]"
  by (auto simp: checkIfReplied_def script_simps split: sum.splits)

lemma invocations_cleaned [simp]: "invocations (cleaned e w) = invocations w"
  by (simp add: cleaned_def invocations_def emit_def split: option.splits)

lemma sendMail_invocations:
  assumes "granted e w" "\<not> blank to" "\<not> blank subject'" "\<not> blank body"
    and "write_error e (tmp_file e) = None"
  shows "invocations (snd (sendMail e to subject' body cc bcc w)) =
           invocations w @
             [mail_access_script,
              send_script (tmp_file e) (escape_quotes subject') (escape_quotes to)
                (cc_clause cc) (bcc_clause bcc)]"
proof (cases "interp e (staged e body w) (sendMail_script e subject' to cc bcc)")
  case (Inl err)
  with assms show ?thesis
    by (simp add: sendMail_interp_error rethrown_def sendMail_script_def)
next
  case (Inr result)
  with assms show ?thesis
    by (cases "result = JStr ''SUCCESS''")
       (simp_all add: sendMail_reply Let_def rethrown_def sendMail_script_def)
qed

section \<open>Escaping of interpolated literals\<close>

lemma replace_all_char_append [simp]:
  "replace_all_char c r (xs @ ys) = replace_all_char c r xs @ replace_all_char c r ys"
  by (simp add: replace_all_char_def)

lemma replace_all_char_Nil [simp]: "replace_all_char c r [] = []"
  by (simp add: replace_all_char_def)

lemma replace_all_char_Cons:
  "replace_all_char c r (x # xs) = (if x = c then r else [x]) @ replace_all_char c r xs"
  by (simp add: replace_all_char_def)

lemma escape_subject_chars:
  \<open>escape_backslashes (escape_quotes s) =
     concat (map (\<lambda>c. if c = CHR ''"'' then [CHR 0x5C, CHR 0x5C, CHR ''"'']
                      else if c = CHR 0x5C then [CHR 0x5C, CHR 0x5C]
                      else [c]) s)\<close>
  by (induction s)
     (simp_all add: escape_backslashes_def escape_quotes_def replace_all_char_Cons)

lemma escape_quotes_chars:
  \<open>escape_quotes s = concat (map (\<lambda>c. if c = CHR ''"'' then [CHR 0x5C, CHR ''"''] else [c]) s)\<close>
  by (simp add: escape_quotes_def replace_all_char_def)

lemma spec_escape_chars:
  \<open>spec_escape s =
     concat (map (\<lambda>c. if c = CHR ''"'' then [CHR ''"'', CHR ''"'']
                      else if c = CHR 0x5C then [CHR 0x5C, CHR 0x5C]
                      else [c]) s)\<close>
  by (induction s) (simp_all add: spec_escape_def replace_all_char_Cons)

lemma archive_script_differs:
  "archive_script ''iCloud'' [CHR 0x5C, CHR 0x5C, CHR 0x22] [CHR 0x5C] \<noteq>
   archive_script (spec_escape ''iCloud'') (spec_escape [CHR 0x22]) (spec_escape [CHR 0x5C])"
  by (simp add: archive_script_def spec_escape_def replace_all_char_def)

lemma escape_samples:
  "escape_quotes ''iCloud'' = ''iCloud''"
  "escape_quotes [CHR 0x5C] = [CHR 0x5C]"
  "escape_backslashes (escape_quotes [CHR 0x22]) = [CHR 0x5C, CHR 0x5C, CHR 0x22]"
  "spec_escape [CHR 0x22] = [CHR 0x22, CHR 0x22]"
  "spec_escape [CHR 0x5C] = [CHR 0x5C, CHR 0x5C]"
  by (simp_all add: escape_quotes_def escape_backslashes_def spec_escape_def replace_all_char_def)

text \<open>
  C2, as stated, fails: \<open>archiveEmail\<close> for the account \<open>iCloud\<close>, a subject that is one quote
  character and a sender that is one backslash. The claim's escaping doubles the quote and
  doubles the backslash; the script the code generates carries backslash, backslash, quote
  for the subject and the single backslash, unescaped, for the sender.
\<close>

theorem archiveEmail_literals_not_escaped_as_claimed:
  "invocations (snd (archiveEmail (fake_env (Inr (JStr ''SUCCESS:Message archived'')))
      ''iCloud'' [CHR 0x22] [CHR 0x5C] world0)) =
     [mail_access_script, archive_script ''iCloud'' [CHR 0x5C, CHR 0x5C, CHR 0x22] [CHR 0x5C]] \<and>
   spec_escape [CHR 0x22] = [CHR 0x22, CHR 0x22] \<and>
   spec_escape [CHR 0x5C] = [CHR 0x5C, CHR 0x5C] \<and>
   archive_script ''iCloud'' [CHR 0x5C, CHR 0x5C, CHR 0x22] [CHR 0x5C] \<noteq>
     archive_script (spec_escape ''iCloud'') (spec_escape [CHR 0x22]) (spec_escape [CHR 0x5C])"
proof -
  have "invocations world0 = []"
    by (simp add: world0_def invocations_def)
  then show ?thesis
    using archive_script_differs
    by (simp add: archiveEmail_script fake_granted escape_samples)
qed

lemma escaped_with_Nil [simp]: "escaped_with q b [] = []"
  by (simp add: escaped_with_def)

lemma escaped_with_Cons [simp]:
  \<open>escaped_with q b (c # s) =
     (if c = CHR ''"'' then q else if c = CHR 0x5C then b else [c]) @ escaped_with q b s\<close>
  by (simp add: escaped_with_def)

lemma escape_quotes_escaped_with:
  \<open>escape_quotes s = escaped_with [CHR 0x5C, CHR ''"''] [CHR 0x5C] s\<close>
  by (induction s) (simp_all add: escape_quotes_def replace_all_char_Cons)

lemma escape_subject_escaped_with:
  \<open>escape_backslashes (escape_quotes s) =
     escaped_with [CHR 0x5C, CHR 0x5C, CHR ''"''] [CHR 0x5C, CHR 0x5C] s\<close>
  by (induction s)
     (simp_all add: escape_backslashes_def escape_quotes_def replace_all_char_Cons)

lemma reply_recipient_pattern_address:
  "reply_recipient_pattern s = escape_quotes (toLowerCase (reply_address s))"
  by (simp add: reply_recipient_pattern_def reply_address_def Let_def split: option.splits)

text \<open>
  C2, amended: in every literal interpolated with escaping, the characters other than the
  quote and the backslash are kept as they are. In an account name, a sender, a recipient
  address and the subject of \<open>sendMail\<close> each quote character is replaced by a backslash and
  the quote; in the subject of \<open>archiveEmail\<close>, \<open>deleteEmail\<close>, \<open>markAsRead\<close> and
  \<open>checkIfReplied\<close> each backslash is replaced by two backslashes. What stands for a quote of
  that subject (the text \<open>q\<close>) and for a backslash of the other literals (the text \<open>b\<close>) is
  the same for every input and is left open. The scripts handed to the interpreter are the
  templates filled with these texts.
\<close>

theorem literals_escaped_character_by_character:
  \<open>\<exists>q b. \<forall>e w account subject' sender' to body cc bcc limit c.
     (granted e w \<longrightarrow>
        invocations (snd (archiveEmail e account subject' sender' w)) =
          invocations w @
            [mail_access_script,
             archive_script (escaped_with [CHR 0x5C, CHR ''"''] b account)
               (escaped_with q [CHR 0x5C, CHR 0x5C] subject')
               (escaped_with [CHR 0x5C, CHR ''"''] b sender')] \<and>
        invocations (snd (deleteEmail e account subject' sender' w)) =
          invocations w @
            [mail_access_script,
             delete_script (escaped_with [CHR 0x5C, CHR ''"''] b account)
               (escaped_with q [CHR 0x5C, CHR 0x5C] subject')
               (escaped_with [CHR 0x5C, CHR ''"''] b sender')] \<and>
        invocations (snd (markAsRead e account subject' sender' w)) =
          invocations w @
            [mail_access_script,
             mark_read_script (escaped_with [CHR 0x5C, CHR ''"''] b account)
               (escaped_with q [CHR 0x5C, CHR 0x5C] subject')
               (escaped_with [CHR 0x5C, CHR ''"''] b sender')] \<and>
        invocations (snd (checkIfReplied e account subject' sender' w)) =
          invocations w @
            [mail_access_script,
             replied_script (escaped_with [CHR 0x5C, CHR ''"''] b account)
               (escaped_with q [CHR 0x5C, CHR 0x5C] (strip_reply_prefix subject'))
               (escaped_with [CHR 0x5C, CHR ''"''] b (toLowerCase (reply_address sender')))] \<and>
        invocations (snd (getLatestMails e account limit w)) =
          invocations w @
            [mail_access_script,
             latest_script (escaped_with [CHR 0x5C, CHR ''"''] b account)
               (number_text e (math_min limit MAX_EMAILS))] \<and>
        (\<not> blank account \<longrightarrow>
           invocations (snd (getMailboxesForAccount e account w)) =
             invocations w @
               [mail_access_script,
                mailboxes_for_account_script (escaped_with [CHR 0x5C, CHR ''"''] b account)]) \<and>
        (\<not> blank to \<and> \<not> blank subject' \<and> \<not> blank body \<and> write_error e (tmp_file e) = None \<longrightarrow>
           invocations (snd (sendMail e to subject' body cc bcc w)) =
             invocations w @
               [mail_access_script,
                send_script (tmp_file e) (escaped_with [CHR 0x5C, CHR ''"''] b subject')
                  (escaped_with [CHR 0x5C, CHR ''"''] b to) (cc_clause cc) (bcc_clause bcc)])) \<and>
     (c \<noteq> [] \<longrightarrow>
        cc_clause (Some c) =
          ''make new cc recipient with properties {address:"'' @
            escaped_with [CHR 0x5C, CHR ''"''] b c @ ''"}'' \<and>
        bcc_clause (Some c) =
          ''make new bcc recipient with properties {address:"'' @
            escaped_with [CHR 0x5C, CHR ''"''] b c @ ''"}'')\<close>
proof (intro exI allI)
  fix e w account subject' sender' to body cc bcc limit c
  let ?q = \<open>[CHR 0x5C, CHR 0x5C, CHR ''"'']\<close>
  let ?b = \<open>[CHR 0x5C]\<close>
  have clauses: \<open>c \<noteq> [] \<longrightarrow>
      cc_clause (Some c) = ''make new cc recipient with properties {address:"'' @ escape_quotes c @ ''"}'' \<and>
      bcc_clause (Some c) = ''make new bcc recipient with properties {address:"'' @ escape_quotes c @ ''"}''\<close>
    by (simp add: cc_clause_def bcc_clause_def)
  have send: "\<not> blank to \<and> \<not> blank subject' \<and> \<not> blank body \<and> write_error e (tmp_file e) = None \<longrightarrow>
         invocations (snd (sendMail e to subject' body cc bcc w)) =
           invocations w @
             [mail_access_script,
              send_script (tmp_file e) (escape_quotes subject') (escape_quotes to)
                (cc_clause cc) (bcc_clause bcc)]"
    if "granted e w"
    using that sendMail_invocations by blast
  have code: \<open>(granted e w \<longrightarrow>
      invocations (snd (archiveEmail e account subject' sender' w)) =
        invocations w @
          [mail_access_script,
           archive_script (escape_quotes account) (escape_backslashes (escape_quotes subject'))
             (escape_quotes sender')] \<and>
      invocations (snd (deleteEmail e account subject' sender' w)) =
        invocations w @
          [mail_access_script,
           delete_script (escape_quotes account) (escape_backslashes (escape_quotes subject'))
             (escape_quotes sender')] \<and>
      invocations (snd (markAsRead e account subject' sender' w)) =
        invocations w @
          [mail_access_script,
           mark_read_script (escape_quotes account) (escape_backslashes (escape_quotes subject'))
             (escape_quotes sender')] \<and>
      invocations (snd (checkIfReplied e account subject' sender' w)) =
        invocations w @
          [mail_access_script,
           replied_script (escape_quotes account)
             (escape_backslashes (escape_quotes (strip_reply_prefix subject')))
             (escape_quotes (toLowerCase (reply_address sender')))] \<and>
      invocations (snd (getLatestMails e account limit w)) =
        invocations w @
          [mail_access_script,
           latest_script (escape_quotes account) (number_text e (math_min limit MAX_EMAILS))] \<and>
      (\<not> blank account \<longrightarrow>
         invocations (snd (getMailboxesForAccount e account w)) =
           invocations w @ [mail_access_script, mailboxes_for_account_script (escape_quotes account)]) \<and>
      (\<not> blank to \<and> \<not> blank subject' \<and> \<not> blank body \<and> write_error e (tmp_file e) = None \<longrightarrow>
         invocations (snd (sendMail e to subject' body cc bcc w)) =
           invocations w @
             [mail_access_script,
              send_script (tmp_file e) (escape_quotes subject') (escape_quotes to)
                (cc_clause cc) (bcc_clause bcc)])) \<and>
     (c \<noteq> [] \<longrightarrow>
        cc_clause (Some c) =
          ''make new cc recipient with properties {address:"'' @ escape_quotes c @ ''"}'' \<and>
        bcc_clause (Some c) =
          ''make new bcc recipient with properties {address:"'' @ escape_quotes c @ ''"}'')\<close>
    using clauses send
    by (simp add: archiveEmail_script deleteEmail_script markAsRead_script checkIfReplied_script
          getLatestMails_script getMailboxesForAccount_script reply_subject_pattern_def
          reply_recipient_pattern_address)
  show \<open>(granted e w \<longrightarrow>
        invocations (snd (archiveEmail e account subject' sender' w)) =
          invocations w @
            [mail_access_script,
             archive_script (escaped_with [CHR 0x5C, CHR ''"''] ?b account)
               (escaped_with ?q [CHR 0x5C, CHR 0x5C] subject')
               (escaped_with [CHR 0x5C, CHR ''"''] ?b sender')] \<and>
        invocations (snd (deleteEmail e account subject' sender' w)) =
          invocations w @
            [mail_access_script,
             delete_script (escaped_with [CHR 0x5C, CHR ''"''] ?b account)
               (escaped_with ?q [CHR 0x5C, CHR 0x5C] subject')
               (escaped_with [CHR 0x5C, CHR ''"''] ?b sender')] \<and>
        invocations (snd (markAsRead e account subject' sender' w)) =
          invocations w @
            [mail_access_script,
             mark_read_script (escaped_with [CHR 0x5C, CHR ''"''] ?b account)
               (escaped_with ?q [CHR 0x5C, CHR 0x5C] subject')
               (escaped_with [CHR 0x5C, CHR ''"''] ?b sender')] \<and>
        invocations (snd (checkIfReplied e account subject' sender' w)) =
          invocations w @
            [mail_access_script,
             replied_script (escaped_with [CHR 0x5C, CHR ''"''] ?b account)
               (escaped_with ?q [CHR 0x5C, CHR 0x5C] (strip_reply_prefix subject'))
               (escaped_with [CHR 0x5C, CHR ''"''] ?b (toLowerCase (reply_address sender')))] \<and>
        invocations (snd (getLatestMails e account limit w)) =
          invocations w @
            [mail_access_script,
             latest_script (escaped_with [CHR 0x5C, CHR ''"''] ?b account)
               (number_text e (math_min limit MAX_EMAILS))] \<and>
        (\<not> blank account \<longrightarrow>
           invocations (snd (getMailboxesForAccount e account w)) =
             invocations w @
               [mail_access_script,
                mailboxes_for_account_script (escaped_with [CHR 0x5C, CHR ''"''] ?b account)]) \<and>
        (\<not> blank to \<and> \<not> blank subject' \<and> \<not> blank body \<and> write_error e (tmp_file e) = None \<longrightarrow>
           invocations (snd (sendMail e to subject' body cc bcc w)) =
             invocations w @
               [mail_access_script,
                send_script (tmp_file e) (escaped_with [CHR 0x5C, CHR ''"''] ?b subject')
                  (escaped_with [CHR 0x5C, CHR ''"''] ?b to) (cc_clause cc) (bcc_clause bcc)])) \<and>
     (c \<noteq> [] \<longrightarrow>
        cc_clause (Some c) =
          ''make new cc recipient with properties {address:"'' @
            escaped_with [CHR 0x5C, CHR ''"''] ?b c @ ''"}'' \<and>
        bcc_clause (Some c) =
          ''make new bcc recipient with properties {address:"'' @
            escaped_with [CHR 0x5C, CHR ''"''] ?b c @ ''"}'')\<close>
    by (rule code [unfolded escape_subject_escaped_with, unfolded escape_quotes_escaped_with])
qed

theorem literals_escaped_character_by_character_witness:
  \<open>granted (fake_env (Inr (JStr ''SUCCESS''))) world0 \<and>
   invocations (snd (archiveEmail (fake_env (Inr (JStr ''SUCCESS'')))
      [CHR ''A'', CHR 0x22] [CHR ''a'', CHR 0x5C, CHR ''b''] [CHR ''B'', CHR 0x22] world0)) =
     invocations world0 @
       [mail_access_script,
        archive_script [CHR ''A'', CHR 0x5C, CHR 0x22] [CHR ''a'', CHR 0x5C, CHR 0x5C, CHR ''b'']
          [CHR ''B'', CHR 0x5C, CHR 0x22]] \<and>
   \<not> blank ''iCloud'' \<and>
   invocations (snd (getMailboxesForAccount (fake_env (Inr (JStr ''SUCCESS''))) ''iCloud'' world0)) =
     invocations world0 @ [mail_access_script, mailboxes_for_account_script ''iCloud''] \<and>
   \<not> blank ''a@b.c'' \<and> \<not> blank ''Hi'' \<and> \<not> blank ''Body'' \<and>
   write_error (fake_env (Inr (JStr ''SUCCESS''))) (tmp_file (fake_env (Inr (JStr ''SUCCESS'')))) = None \<and>
   invocations (snd (sendMail (fake_env (Inr (JStr ''SUCCESS''))) ''a@b.c'' ''Hi'' ''Body''
      (Some ''c@d.e'') None world0)) =
     invocations world0 @
       [mail_access_script,
        send_script (tmp_file (fake_env (Inr (JStr ''SUCCESS'')))) ''Hi'' ''a@b.c''
          (cc_clause (Some ''c@d.e'')) (bcc_clause None)] \<and>
   ''c@d.e'' \<noteq> [] \<and>
   cc_clause (Some ''c@d.e'') = ''make new cc recipient with properties {address:"c@d.e"}''\<close>
proof -
  from literals_escaped_character_by_character obtain q b where at:
    \<open>\<forall>e w account subject' sender' to body cc bcc limit c.
     (granted e w \<longrightarrow>
        invocations (snd (archiveEmail e account subject' sender' w)) =
          invocations w @
            [mail_access_script,
             archive_script (escaped_with [CHR 0x5C, CHR ''"''] b account)
               (escaped_with q [CHR 0x5C, CHR 0x5C] subject')
               (escaped_with [CHR 0x5C, CHR ''"''] b sender')] \<and>
        invocations (snd (deleteEmail e account subject' sender' w)) =
          invocations w @
            [mail_access_script,
             delete_script (escaped_with [CHR 0x5C, CHR ''"''] b account)
               (escaped_with q [CHR 0x5C, CHR 0x5C] subject')
               (escaped_with [CHR 0x5C, CHR ''"''] b sender')] \<and>
        invocations (snd (markAsRead e account subject' sender' w)) =
          invocations w @
            [mail_access_script,
             mark_read_script (escaped_with [CHR 0x5C, CHR ''"''] b account)
               (escaped_with q [CHR 0x5C, CHR 0x5C] subject')
               (escaped_with [CHR 0x5C, CHR ''"''] b sender')] \<and>
        invocations (snd (checkIfReplied e account subject' sender' w)) =
          invocations w @
            [mail_access_script,
             replied_script (escaped_with [CHR 0x5C, CHR ''"''] b account)
               (escaped_with q [CHR 0x5C, CHR 0x5C] (strip_reply_prefix subject'))
               (escaped_with [CHR 0x5C, CHR ''"''] b (toLowerCase (reply_address sender')))] \<and>
        invocations (snd (getLatestMails e account limit w)) =
          invocations w @
            [mail_access_script,
             latest_script (escaped_with [CHR 0x5C, CHR ''"''] b account)
               (number_text e (math_min limit MAX_EMAILS))] \<and>
        (\<not> blank account \<longrightarrow>
           invocations (snd (getMailboxesForAccount e account w)) =
             invocations w @
               [mail_access_script,
                mailboxes_for_account_script (escaped_with [CHR 0x5C, CHR ''"''] b account)]) \<and>
        (\<not> blank to \<and> \<not> blank subject' \<and> \<not> blank body \<and> write_error e (tmp_file e) = None \<longrightarrow>
           invocations (snd (sendMail e to subject' body cc bcc w)) =
             invocations w @
               [mail_access_script,
                send_script (tmp_file e) (escaped_with [CHR 0x5C, CHR ''"''] b subject')
                  (escaped_with [CHR 0x5C, CHR ''"''] b to) (cc_clause cc) (bcc_clause bcc)])) \<and>
     (c \<noteq> [] \<longrightarrow>
        cc_clause (Some c) =
          ''make new cc recipient with properties {address:"'' @
            escaped_with [CHR 0x5C, CHR ''"''] b c @ ''"}'' \<and>
        bcc_clause (Some c) =
          ''make new bcc recipient with properties {address:"'' @
            escaped_with [CHR 0x5C, CHR ''"''] b c @ ''"}'')\<close>
    by (elim exE) (rule that)
  note archive = at
    [rule_format, where e = "fake_env (Inr (JStr ''SUCCESS''))" and w = world0
       and account = "[CHR ''A'', CHR 0x22]" and subject' = "[CHR ''a'', CHR 0x5C, CHR ''b'']"
       and sender' = "[CHR ''B'', CHR 0x22]" and c = "''c@d.e''"]
  note send = at
    [rule_format, where e = "fake_env (Inr (JStr ''SUCCESS''))" and w = world0
       and account = "''iCloud''" and subject' = "''Hi''" and to = "''a@b.c''" and body = "''Body''"
       and cc = "Some ''c@d.e''" and bcc = None and c = "''c@d.e''"]
  have g: "granted (fake_env (Inr (JStr ''SUCCESS''))) world0"
    by (rule fake_granted)
  from g archive have a:
    "invocations (snd (archiveEmail (fake_env (Inr (JStr ''SUCCESS'')))
        [CHR ''A'', CHR 0x22] [CHR ''a'', CHR 0x5C, CHR ''b''] [CHR ''B'', CHR 0x22] world0)) =
       invocations world0 @
         [mail_access_script,
          archive_script [CHR ''A'', CHR 0x5C, CHR 0x22] [CHR ''a'', CHR 0x5C, CHR 0x5C, CHR ''b'']
            [CHR ''B'', CHR 0x5C, CHR 0x22]]"
    by simp
  from g send have b:
    "invocations (snd (getMailboxesForAccount (fake_env (Inr (JStr ''SUCCESS''))) ''iCloud'' world0)) =
       invocations world0 @ [mail_access_script, mailboxes_for_account_script ''iCloud'']"
    by simp
  from g send have c:
    "invocations (snd (sendMail (fake_env (Inr (JStr ''SUCCESS''))) ''a@b.c'' ''Hi'' ''Body''
        (Some ''c@d.e'') None world0)) =
       invocations world0 @
         [mail_access_script,
          send_script (tmp_file (fake_env (Inr (JStr ''SUCCESS'')))) ''Hi'' ''a@b.c''
            (cc_clause (Some ''c@d.e'')) (bcc_clause None)]"
    by simp
  from send have d:
    \<open>cc_clause (Some ''c@d.e'') = ''make new cc recipient with properties {address:"c@d.e"}''\<close>
    by simp
  from g a b c d show ?thesis
    by simp
qed

section \<open>Parsing the reply of the latest-messages script\<close>

lemma or_default_field:
  "i < length fs \<Longrightarrow> or_default (field fs i) d = (if fs ! i = [] then d else fs ! i)"
  by (simp add: or_default_def field_def)

lemma or_default_field_absent: "length fs \<le> i \<Longrightarrow> or_default (field fs i) d = d"
  by (simp add: or_default_def field_def)

lemma parsed_record:
  assumes "4 \<le> length fs"
  shows "\<lparr>subject = or_default (field fs 0) ''No subject'',
          sender = or_default (field fs 1) ''Unknown sender'',
          dateSent = or_default (field fs 2) now,
          content = or_default (field fs 4) ''[Content not available]'',
          isRead = (field fs 3 = Some ''true''),
          mailbox = account @ '' - INBOX''\<rparr> = record_message now account fs"
proof -
  from assms have l: "0 < length fs" "1 < length fs" "2 < length fs" "3 < length fs"
    by linarith+
  have c: "or_default (field fs 4) ''[Content not available]'' =
           (if length fs < 5 \<or> fs ! 4 = [] then ''[Content not available]'' else fs ! 4)"
    by (cases "length fs < 5") (simp_all add: or_default_field or_default_field_absent)
  have r: "(field fs 3 = Some ''true'') = (fs ! 3 = ''true'')"
    using l(4) by (simp add: field_def)
  show ?thesis
    unfolding record_message_def c r
      or_default_field [OF l(1)] or_default_field [OF l(2)] or_default_field [OF l(3)]
    by (rule refl)
qed

lemma parse_emails_eq:
  "parse_emails now account emailStrings emailData =
     emailData @
     map (record_message now account)
       (filter (\<lambda>fs. 4 \<le> length fs) (map (\<lambda>r. js_split r FIELD_DELIM) emailStrings))"
proof (induction emailStrings arbitrary: emailData)
  case Nil
  show ?case by simp
next
  case (Cons emailStr rest)
  show ?case
  proof (cases "4 \<le> length (js_split emailStr FIELD_DELIM)")
    case True
    then show ?thesis
      using Cons.IH parsed_record [OF True, of now account]
      by (simp add: Let_def)
  next
    case False
    then show ?thesis
      using Cons.IH by (simp add: Let_def)
  qed
qed

lemma getLatestMails_reply:
  assumes "granted e w"
    and "interp e (probed w) (latest_script (escape_quotes account) (number_text e (math_min limit MAX_EMAILS))) =
           Inr (JStr s)"
  shows "fst (getLatestMails e account limit w) =
           Inr (if prefix ''ERROR:'' s then []
                else map (record_message (date_string e) account)
                       (filter (\<lambda>fs. 4 \<le> length fs)
                          (map (\<lambda>r. js_split r FIELD_DELIM)
                             (filter (\<lambda>r. r \<noteq> []) (js_split s DELIM)))))"
  using assms
  by (simp add: getLatestMails_def io_defs requestMailAccess_granted runAppleScript_def
        console_error_def Let_def startsWith_def parse_emails_eq)

text \<open>
  What \<open>split\<close> does: the fragments, joined by the separator again, are the text; and
  a reply that the script built from messages whose fields have no two opening brackets
  in a row splits back into those messages and fields.
\<close>

lemma js_split_from_nonempty: "js_split_from sep acc s \<noteq> []"
  by (induction sep acc s rule: js_split_from.induct) auto

lemma join_Cons: "xs \<noteq> [] \<Longrightarrow> join sep (x # xs) = x @ sep @ join sep xs"
  by (cases xs) simp_all

lemma split_at_separator:
  "sep \<noteq> [] \<Longrightarrow> js_split_from sep acc (sep @ y) = rev acc # js_split_from sep [] y"
  by (cases sep) auto

lemma join_js_split_from: "join sep (js_split_from sep acc s) = rev acc @ s"
proof (induction sep acc s rule: js_split_from.induct)
  case (1 sep acc)
  show ?case by simp
next
  case (2 sep acc c cs)
  show ?case
  proof (cases "sep \<noteq> [] \<and> prefix sep (c # cs)")
    case True
    then obtain zs where zs: "c # cs = sep @ zs"
      by (auto simp: prefix_def)
    with True have d: "drop (length sep - 1) cs = zs"
      by (cases sep) auto
    from True 2 have "join sep (js_split_from sep [] (drop (length sep - 1) cs)) =
        drop (length sep - 1) cs"
      by simp
    with d have ih: "join sep (js_split_from sep [] zs) = zs"
      by simp
    from True have "js_split_from sep acc (sep @ zs) = rev acc # js_split_from sep [] zs"
      by (simp add: split_at_separator)
    with ih have "join sep (js_split_from sep acc (sep @ zs)) = rev acc @ sep @ zs"
      by (simp add: join_Cons js_split_from_nonempty)
    with zs show ?thesis by simp
  next
    case False
    with 2 show ?thesis by auto
  qed
qed

lemma join_js_split: "join sep (js_split s sep) = s"
  by (simp add: js_split_def join_js_split_from)

lemma split_skip_text:
  assumes "sep = CHR ''<'' # CHR ''<'' # t"
  shows "lone_brackets f \<Longrightarrow> js_split_from sep acc (f @ y) = js_split_from sep (rev f @ acc) y"
proof (induction f arbitrary: acc rule: lone_brackets.induct)
  case 1
  show ?case by simp
next
  case (2 c)
  with assms show ?case by simp
next
  case (3 c d cs)
  then have "js_split_from sep (c # acc) ((d # cs) @ y) = js_split_from sep (rev (d # cs) @ c # acc) y"
    by simp
  moreover from 3 assms have "\<not> prefix sep (c # d # cs @ y)"
    by auto
  ultimately show ?case by simp
qed

lemma DELIM_shape: "DELIM = CHR ''<'' # CHR ''<'' # ''<EMAIL_SEP>>>''"
  by (simp add: DELIM_def)

lemma FIELD_DELIM_shape: "FIELD_DELIM = CHR ''<'' # CHR ''<'' # ''<FIELD>>>''"
  by (simp add: FIELD_DELIM_def)

lemma split_fields:
  "fs \<noteq> [] \<Longrightarrow> list_all lone_brackets fs \<Longrightarrow>
   js_split_from FIELD_DELIM acc (join FIELD_DELIM fs) = (rev acc @ hd fs) # tl fs"
proof (induction FIELD_DELIM fs arbitrary: acc rule: join.induct)
  case 1
  then show ?case by simp
next
  case (2 x)
  then show ?case
    using split_skip_text [OF FIELD_DELIM_shape, of x acc "[]"] by simp
next
  case (3 x y ys)
  have ne: "FIELD_DELIM \<noteq> []" by (simp add: FIELD_DELIM_def)
  from 3 have "js_split_from FIELD_DELIM [] (join FIELD_DELIM (y # ys)) = y # ys"
    by simp
  with 3 show ?case
    using split_skip_text [OF FIELD_DELIM_shape, of x acc "FIELD_DELIM @ join FIELD_DELIM (y # ys)"]
    by (simp add: split_at_separator [OF ne])
qed

lemma js_split_join_fields:
  "fs \<noteq> [] \<Longrightarrow> list_all lone_brackets fs \<Longrightarrow> js_split (join FIELD_DELIM fs) FIELD_DELIM = fs"
  by (simp add: js_split_def split_fields)

lemma skip_field_delim:
  "js_split_from DELIM acc (FIELD_DELIM @ y) = js_split_from DELIM (rev FIELD_DELIM @ acc) y"
  by (simp add: DELIM_def FIELD_DELIM_def)

lemma skip_record:
  "list_all lone_brackets fs \<Longrightarrow>
   js_split_from DELIM acc (join FIELD_DELIM fs @ y) =
     js_split_from DELIM (rev (join FIELD_DELIM fs) @ acc) y"
proof (induction FIELD_DELIM fs arbitrary: acc rule: join.induct)
  case 1
  show ?case by simp
next
  case (2 x)
  then show ?case
    by (simp add: split_skip_text [OF DELIM_shape])
next
  case (3 x y ys)
  then show ?case
    by (simp add: split_skip_text [OF DELIM_shape] skip_field_delim)
qed

lemma split_records:
  "list_all (list_all lone_brackets) records \<Longrightarrow>
   js_split_from DELIM [] (encode_reply records) = map (join FIELD_DELIM) records @ [[]]"
proof (induction records)
  case Nil
  show ?case by (simp add: encode_reply_def)
next
  case (Cons r rs)
  have ne: "DELIM \<noteq> []" by (simp add: DELIM_def)
  from Cons have "js_split_from DELIM [] (encode_reply rs) = map (join FIELD_DELIM) rs @ [[]]"
    by simp
  moreover have "encode_reply (r # rs) = join FIELD_DELIM r @ DELIM @ encode_reply rs"
    by (simp add: encode_reply_def)
  ultimately show ?case
    using Cons.prems by (simp add: skip_record split_at_separator [OF ne])
qed

lemma join_Nil_length: "join FIELD_DELIM fs = [] \<Longrightarrow> length fs \<le> 1"
proof (cases fs)
  case Nil
  then show ?thesis by simp
next
  case (Cons x xs)
  assume "join FIELD_DELIM fs = []"
  with Cons show ?thesis
    by (cases xs) (simp_all add: FIELD_DELIM_def)
qed

lemma accepted_records:
  "list_all (list_all lone_brackets) records \<Longrightarrow>
   filter (\<lambda>fs. 4 \<le> length fs)
     (map (\<lambda>r. js_split r FIELD_DELIM) (filter (\<lambda>r. r \<noteq> []) (map (join FIELD_DELIM) records))) =
   filter (\<lambda>fs. 4 \<le> length fs) records"
proof (induction records)
  case Nil
  show ?case by simp
next
  case (Cons r rs)
  show ?case
  proof (cases "join FIELD_DELIM r = []")
    case True
    then have "length r \<le> 1" by (rule join_Nil_length)
    with True Cons show ?thesis by simp
  next
    case False
    then have "r \<noteq> []" by auto
    with Cons.prems have "js_split (join FIELD_DELIM r) FIELD_DELIM = r"
      by (simp add: js_split_join_fields)
    with False Cons show ?thesis by simp
  qed
qed

lemma getLatestMails_encoded:
  assumes "granted e w"
    and "interp e (probed w) (latest_script (escape_quotes account) (number_text e (math_min limit MAX_EMAILS))) =
           Inr (JStr (encode_reply records))"
    and "\<not> prefix ''ERROR:'' (encode_reply records)"
    and "list_all (list_all lone_brackets) records"
  shows "fst (getLatestMails e account limit w) =
           Inr (map (record_message (date_string e) account) (filter (\<lambda>fs. 4 \<le> length fs) records))"
proof -
  have "filter (\<lambda>r. r \<noteq> []) (js_split (encode_reply records) DELIM) =
        filter (\<lambda>r. r \<noteq> []) (map (join FIELD_DELIM) records)"
    using assms(4) by (simp add: js_split_def split_records)
  with assms show ?thesis
    by (simp add: getLatestMails_reply accepted_records)
qed


lemma sample_reply:
  "encode_reply [[''ERROR: quota'', ''Ann <ann@example.com>'', ''Monday'', ''true'', ''Hello'']] =
     ''ERROR: quota<<<FIELD>>>Ann <ann@example.com><<<FIELD>>>Monday<<<FIELD>>>true<<<FIELD>>>Hello<<<EMAIL_SEP>>>''"
  by (simp add: encode_reply_def FIELD_DELIM_def DELIM_def)

text \<open>
  C4, as stated, fails: a reply in the documented encoding, holding one record of five
  fields, whose first field (the subject of the first message) starts with \<open>ERROR:\<close>. The
  record yields more than four fields, yet \<open>getLatestMails\<close> returns no message: the
  sentinel test that stands before the parser takes the whole reply for an error.
\<close>

theorem getLatestMails_takes_subject_for_error_sentinel:
  "encode_reply [[''ERROR: quota'', ''Ann <ann@example.com>'', ''Monday'', ''true'', ''Hello'']] =
     ''ERROR: quota<<<FIELD>>>Ann <ann@example.com><<<FIELD>>>Monday<<<FIELD>>>true<<<FIELD>>>Hello<<<EMAIL_SEP>>>'' \<and>
   js_split ''ERROR: quota<<<FIELD>>>Ann <ann@example.com><<<FIELD>>>Monday<<<FIELD>>>true<<<FIELD>>>Hello''
     FIELD_DELIM = [''ERROR: quota'', ''Ann <ann@example.com>'', ''Monday'', ''true'', ''Hello''] \<and>
   fst (getLatestMails
          (fake_env (Inr (JStr (encode_reply
             [[''ERROR: quota'', ''Ann <ann@example.com>'', ''Monday'', ''true'', ''Hello'']]))))
          ''iCloud'' (Finite 5) world0) = Inr []"
proof -
  have "js_split (join FIELD_DELIM [''ERROR: quota'', ''Ann <ann@example.com>'', ''Monday'', ''true'', ''Hello''])
          FIELD_DELIM = [''ERROR: quota'', ''Ann <ann@example.com>'', ''Monday'', ''true'', ''Hello'']"
    by (rule js_split_join_fields) simp_all
  then have fields:
    "js_split ''ERROR: quota<<<FIELD>>>Ann <ann@example.com><<<FIELD>>>Monday<<<FIELD>>>true<<<FIELD>>>Hello''
       FIELD_DELIM = [''ERROR: quota'', ''Ann <ann@example.com>'', ''Monday'', ''true'', ''Hello'']"
    by (simp add: FIELD_DELIM_def)
  have "fst (getLatestMails
          (fake_env (Inr (JStr (encode_reply
             [[''ERROR: quota'', ''Ann <ann@example.com>'', ''Monday'', ''true'', ''Hello'']]))))
          ''iCloud'' (Finite 5) world0) = Inr []"
    by (simp add: getLatestMails_reply
          [where s = "encode_reply
             [[''ERROR: quota'', ''Ann <ann@example.com>'', ''Monday'', ''true'', ''Hello'']]"]
          fake_granted sample_reply)
  with fields sample_reply show ?thesis
    by simp
qed

text \<open>
  C4, amended: for every text reply to \<open>getLatestMails\<close> that does not start with \<open>ERROR:\<close>,
  the parser splits on the record delimiter and discards the empty fragments, produces
  one message per record that yields at least four fields, in order, drops every record
  with fewer, and puts the fixed placeholders in place of a missing subject, sender, date
  or content (\<open>record_message\<close>). Splitting undoes joining: the fragments joined by the
  delimiter are the text again, and a reply that encodes a list of records whose fields
  have no two opening brackets in a row gives one message for each of these records with
  at least four fields.
\<close>

theorem getLatestMails_parses_delimited_records:
  assumes "granted e w"
    and "interp e (probed w) (latest_script (escape_quotes account) (number_text e (math_min limit MAX_EMAILS))) =
           Inr (JStr s)"
    and "\<not> prefix ''ERROR:'' s"
  shows "fst (getLatestMails e account limit w) =
           Inr (map (record_message (date_string e) account)
                  (filter (\<lambda>fs. 4 \<le> length fs)
                     (map (\<lambda>r. js_split r FIELD_DELIM)
                        (filter (\<lambda>r. r \<noteq> []) (js_split s DELIM))))) \<and>
         join DELIM (js_split s DELIM) = s \<and>
         (\<forall>r. join FIELD_DELIM (js_split r FIELD_DELIM) = r) \<and>
         (\<forall>records. s = encode_reply records \<and> list_all (list_all lone_brackets) records \<longrightarrow>
            fst (getLatestMails e account limit w) =
              Inr (map (record_message (date_string e) account)
                     (filter (\<lambda>fs. 4 \<le> length fs) records)))"
proof -
  have general: "fst (getLatestMails e account limit w) =
           Inr (map (record_message (date_string e) account)
                  (filter (\<lambda>fs. 4 \<le> length fs)
                     (map (\<lambda>r. js_split r FIELD_DELIM)
                        (filter (\<lambda>r. r \<noteq> []) (js_split s DELIM)))))"
    using assms by (simp add: getLatestMails_reply)
  have encoded: "fst (getLatestMails e account limit w) =
              Inr (map (record_message (date_string e) account)
                     (filter (\<lambda>fs. 4 \<le> length fs) records))"
    if "s = encode_reply records" and "list_all (list_all lone_brackets) records" for records
    using assms that getLatestMails_encoded [of e w account limit records] by simp
  from general encoded show ?thesis
    by (simp add: join_js_split)
qed

theorem getLatestMails_parses_delimited_records_witness:
  "granted (fake_env (Inr (JStr (encode_reply
      [[''Hi'', ''Ann <ann@example.com>'', ''Monday'', ''true'', ''Hello''],
       [[], [], [], ''false''],
       [''only'', ''two'']])))) world0 \<and>
   \<not> prefix ''ERROR:'' (encode_reply
      [[''Hi'', ''Ann <ann@example.com>'', ''Monday'', ''true'', ''Hello''],
       [[], [], [], ''false''],
       [''only'', ''two'']]) \<and>
   list_all (list_all lone_brackets)
      [[''Hi'', ''Ann <ann@example.com>'', ''Monday'', ''true'', ''Hello''],
       [[], [], [], ''false''],
       [''only'', ''two'']] \<and>
   fst (getLatestMails
          (fake_env (Inr (JStr (encode_reply
             [[''Hi'', ''Ann <ann@example.com>'', ''Monday'', ''true'', ''Hello''],
              [[], [], [], ''false''],
              [''only'', ''two'']]))))
          ''iCloud'' (Finite 5) world0) =
     Inr [\<lparr>subject = ''Hi'', sender = ''Ann <ann@example.com>'', dateSent = ''Monday'',
            content = ''Hello'', isRead = True, mailbox = ''iCloud - INBOX''\<rparr>,
          \<lparr>subject = ''No subject'', sender = ''Unknown sender'',
            dateSent = ''Tue Nov 14 2023 22:13:20 GMT+0000 (Coordinated Universal Time)'',
            content = ''[Content not available]'', isRead = False, mailbox = ''iCloud - INBOX''\<rparr>]"
proof -
  let ?records = "[[''Hi'', ''Ann <ann@example.com>'', ''Monday'', ''true'', ''Hello''],
                   [[], [], [], ''false''],
                   [''only'', ''two'']]"
  let ?e = "fake_env (Inr (JStr (encode_reply ?records)))"
  have g: "granted ?e world0"
    by (rule fake_granted)
  have i: "interp ?e (probed world0)
             (latest_script (escape_quotes ''iCloud'') (number_text ?e (math_min (Finite 5) MAX_EMAILS))) =
           Inr (JStr (encode_reply ?records))"
    by simp
  have p: "\<not> prefix ''ERROR:'' (encode_reply ?records)"
    by (simp add: encode_reply_def)
  have l: "list_all (list_all lone_brackets) ?records"
    by simp
  have d: "date_string ?e = ''Tue Nov 14 2023 22:13:20 GMT+0000 (Coordinated Universal Time)''"
    by (simp add: fake_env_def)
  from getLatestMails_parses_delimited_records [OF g i p] l
  have "fst (getLatestMails ?e ''iCloud'' (Finite 5) world0) =
          Inr (map (record_message (date_string ?e) ''iCloud'')
                 (filter (\<lambda>fs. 4 \<le> length fs) ?records))"
    by blast
  with g p l d show ?thesis
    by (simp add: record_message_def)
qed

section \<open>The limit on the number of messages\<close>

lemma getLatestMails_length:
  assumes "granted e w"
    and "interp e (probed w) (latest_script (escape_quotes account) (number_text e (math_min limit MAX_EMAILS))) =
           Inr (JStr s)"
  shows "\<exists>xs. fst (getLatestMails e account limit w) = Inr xs \<and>
              length xs \<le> length (filter (\<lambda>r. r \<noteq> []) (js_split s DELIM))"
proof (cases "prefix ''ERROR:'' s")
  case True
  with assms show ?thesis by (simp add: getLatestMails_reply)
next
  case False
  have "length (filter (\<lambda>fs. 4 \<le> length fs)
                 (map (\<lambda>r. js_split r FIELD_DELIM) (filter (\<lambda>r. r \<noteq> []) (js_split s DELIM)))) \<le>
        length (map (\<lambda>r. js_split r FIELD_DELIM) (filter (\<lambda>r. r \<noteq> []) (js_split s DELIM)))"
    by (rule length_filter_le)
  with assms False show ?thesis by (simp add: getLatestMails_reply)
qed

lemma twenty_one_records:
  "\<not> prefix ''ERROR:'' (encode_reply (replicate 21 [''s'', ''f'', ''d'', ''true''])) \<and>
   list_all (list_all lone_brackets) (replicate 21 [''s'', ''f'', ''d'', ''true''])"
proof -
  have "(21::nat) = Suc 20" by simp
  then have "replicate 21 [''s'', ''f'', ''d'', ''true''] =
             [''s'', ''f'', ''d'', ''true''] # replicate 20 [''s'', ''f'', ''d'', ''true'']"
    by (simp only: replicate_Suc)
  then have "\<not> prefix ''ERROR:'' (encode_reply (replicate 21 [''s'', ''f'', ''d'', ''true'']))"
    by (simp add: encode_reply_def)
  moreover have "list_all (list_all lone_brackets) (replicate 21 [''s'', ''f'', ''d'', ''true''])"
    by (simp add: list_all_iff)
  ultimately show ?thesis by simp
qed

text \<open>
  C9, as stated, fails in its second half: asked for at most 20 messages,
  \<open>getLatestMails\<close> returns 21 when the reply of the interpreter holds 21 records. The
  parser keeps every accepted record and never shortens the list.
\<close>

theorem getLatestMails_returns_twenty_one_messages:
  "fst (getLatestMails
          (fake_env (Inr (JStr (encode_reply (replicate 21 [''s'', ''f'', ''d'', ''true''])))))
          ''iCloud'' (Finite 20) world0) =
     Inr (replicate 21
            \<lparr>subject = ''s'', sender = ''f'', dateSent = ''d'', content = ''[Content not available]'',
              isRead = True, mailbox = ''iCloud - INBOX''\<rparr>) \<and>
   length (replicate 21
            \<lparr>subject = ''s'', sender = ''f'', dateSent = ''d'', content = ''[Content not available]'',
              isRead = True, mailbox = ''iCloud - INBOX''\<rparr>) = 21"
proof -
  let ?records = "replicate 21 [''s'', ''f'', ''d'', ''true'']"
  let ?e = "fake_env (Inr (JStr (encode_reply ?records)))"
  have "fst (getLatestMails ?e ''iCloud'' (Finite 20) world0) =
          Inr (map (record_message (date_string ?e) ''iCloud'')
                 (filter (\<lambda>fs. 4 \<le> length fs) ?records))"
    using twenty_one_records
    by (intro getLatestMails_encoded) (simp_all add: fake_granted)
  then show ?thesis
    by (simp add: record_message_def)
qed

lemma fake_number_text_20 [simp]: "number_text (fake_env r) (Finite 20) = ''20''"
  by (simp add: fake_env_def plain_number_text_def show_nat.simps char_of_def bit_Suc_0_iff)

text \<open>
  C9, amended: for every limit (a finite number, an infinity or not-a-number) the limit
  that \<open>getUnreadMails\<close>, \<open>searchMails\<close> and \<open>getLatestMails\<close> interpolate into their script
  is the text of \<open>Math.min\<close> of the given limit and the configured maximum 20: of 20 for
  every limit above 20, of the limit itself for every limit up to 20, of not-a-number for
  not-a-number. The lists that \<open>getUnreadMails\<close> and \<open>searchMails\<close> return have at most 20
  entries; the list that \<open>getLatestMails\<close> returns has at most as many entries as the reply
  has non-empty records.
\<close>

theorem limit_is_clamped_in_the_scripts:
  "MAX_EMAILS = Finite 20 \<and>
   (20 < r \<longrightarrow> math_min (Finite r) MAX_EMAILS = Finite 20) \<and>
   (r \<le> 20 \<longrightarrow> math_min (Finite r) MAX_EMAILS = Finite r) \<and>
   math_min PosInf MAX_EMAILS = Finite 20 \<and>
   math_min NegInf MAX_EMAILS = NegInf \<and>
   math_min NaN MAX_EMAILS = NaN \<and>
   (granted e w \<longrightarrow>
      invocations (snd (getUnreadMails e limit w)) =
        invocations w @
          [mail_access_script, unread_script (number_text e (math_min limit MAX_EMAILS))] \<and>
      (\<not> blank searchTerm \<longrightarrow>
         invocations (snd (searchMails e searchTerm limit w)) =
           invocations w @
             [mail_access_script,
              search_script (toLowerCase searchTerm) (number_text e (math_min limit MAX_EMAILS))]) \<and>
      invocations (snd (getLatestMails e account limit w)) =
        invocations w @
          [mail_access_script,
           latest_script (escape_quotes account) (number_text e (math_min limit MAX_EMAILS))]) \<and>
   (\<exists>xs. fst (getUnreadMails e limit w) = Inr xs \<and> length xs \<le> 20) \<and>
   (\<exists>xs. fst (searchMails e searchTerm limit w) = Inr xs \<and> length xs \<le> 20) \<and>
   (\<forall>s. granted e w \<and>
        interp e (probed w)
          (latest_script (escape_quotes account) (number_text e (math_min limit MAX_EMAILS))) =
          Inr (JStr s) \<longrightarrow>
        (\<exists>xs. fst (getLatestMails e account limit w) = Inr xs \<and>
              length xs \<le> length (filter (\<lambda>r. r \<noteq> []) (js_split s DELIM))))"
proof -
  have m: "MAX_EMAILS = Finite 20 \<and>
      (20 < r \<longrightarrow> math_min (Finite r) MAX_EMAILS = Finite 20) \<and>
      (r \<le> 20 \<longrightarrow> math_min (Finite r) MAX_EMAILS = Finite r) \<and>
      math_min PosInf MAX_EMAILS = Finite 20 \<and>
      math_min NegInf MAX_EMAILS = NegInf \<and>
      math_min NaN MAX_EMAILS = NaN"
    by (simp add: MAX_EMAILS_def)
  have latest: "\<exists>xs. fst (getLatestMails e account limit w) = Inr xs \<and>
              length xs \<le> length (filter (\<lambda>r. r \<noteq> []) (js_split s DELIM))"
    if "granted e w"
      and "interp e (probed w)
             (latest_script (escape_quotes account) (number_text e (math_min limit MAX_EMAILS))) =
           Inr (JStr s)" for s
    using that by (rule getLatestMails_length)
  have scripts: "invocations (snd (getUnreadMails e limit w)) =
        invocations w @
          [mail_access_script, unread_script (number_text e (math_min limit MAX_EMAILS))] \<and>
      (\<not> blank searchTerm \<longrightarrow>
         invocations (snd (searchMails e searchTerm limit w)) =
           invocations w @
             [mail_access_script,
              search_script (toLowerCase searchTerm) (number_text e (math_min limit MAX_EMAILS))]) \<and>
      invocations (snd (getLatestMails e account limit w)) =
        invocations w @
          [mail_access_script,
           latest_script (escape_quotes account) (number_text e (math_min limit MAX_EMAILS))]"
    if "granted e w"
    using that getUnreadMails_script [of e w limit] searchMails_script [of e w searchTerm limit]
      getLatestMails_script [of e w account limit]
    by simp
  have lists: "(\<exists>xs. fst (getUnreadMails e limit w) = Inr xs \<and> length xs \<le> 20) \<and>
      (\<exists>xs. fst (searchMails e searchTerm limit w) = Inr xs \<and> length xs \<le> 20)"
    by (simp add: getUnreadMails_empty searchMails_empty)
  from m latest scripts lists show ?thesis
    by simp
qed

theorem limit_is_clamped_in_the_scripts_witness:
  "(20::real) < 50 \<and> math_min (Finite 50) MAX_EMAILS = Finite 20 \<and>
   (5::real) \<le> 20 \<and> math_min (Finite 5) MAX_EMAILS = Finite 5 \<and>
   granted (fake_env (Inr (JStr ''a<<<EMAIL_SEP>>>''))) world0 \<and> \<not> blank ''invoice'' \<and>
   invocations (snd (searchMails (fake_env (Inr (JStr ''a<<<EMAIL_SEP>>>''))) ''invoice'' (Finite 50) world0)) =
     invocations world0 @ [mail_access_script, search_script (toLowerCase ''invoice'') ''20''] \<and>
   interp (fake_env (Inr (JStr ''a<<<EMAIL_SEP>>>''))) (probed world0)
     (latest_script (escape_quotes ''iCloud'') ''20'') = Inr (JStr ''a<<<EMAIL_SEP>>>'') \<and>
   (\<exists>xs. fst (getLatestMails (fake_env (Inr (JStr ''a<<<EMAIL_SEP>>>''))) ''iCloud'' (Finite 50) world0) = Inr xs \<and>
         length xs \<le> 1)"
proof -
  let ?e = "fake_env (Inr (JStr ''a<<<EMAIL_SEP>>>''))"
  note big = limit_is_clamped_in_the_scripts
    [where r = 50 and limit = "Finite 50" and e = ?e and w = world0 and searchTerm = "''invoice''"
       and account = "''iCloud''"]
  note small = limit_is_clamped_in_the_scripts
    [where r = 5 and limit = "Finite 5" and e = ?e and w = world0 and searchTerm = "''invoice''"
       and account = "''iCloud''"]
  have g: "granted ?e world0"
    by (rule fake_granted)
  have nb: "\<not> blank ''invoice''"
    by (simp add: blank_def is_space_def)
  have f: "filter (\<lambda>r. r \<noteq> []) (js_split ''a<<<EMAIL_SEP>>>'' DELIM) = [''a'']"
    by (simp add: js_split_def DELIM_def)
  from big have clamp: "math_min (Finite 50) MAX_EMAILS = Finite 20"
    by simp
  from small have keep: "math_min (Finite 5) MAX_EMAILS = Finite 5"
    by simp
  from big g nb have
    "invocations (snd (searchMails ?e ''invoice'' (Finite 50) world0)) =
       invocations world0 @
         [mail_access_script,
          search_script (toLowerCase ''invoice'') (number_text ?e (math_min (Finite 50) MAX_EMAILS))]"
    by simp
  with clamp have search:
    "invocations (snd (searchMails ?e ''invoice'' (Finite 50) world0)) =
       invocations world0 @ [mail_access_script, search_script (toLowerCase ''invoice'') ''20'']"
    by simp
  from big g have
    "\<exists>xs. fst (getLatestMails ?e ''iCloud'' (Finite 50) world0) = Inr xs \<and>
          length xs \<le> length (filter (\<lambda>r. r \<noteq> []) (js_split ''a<<<EMAIL_SEP>>>'' DELIM))"
    by simp
  with f have latest:
    "\<exists>xs. fst (getLatestMails ?e ''iCloud'' (Finite 50) world0) = Inr xs \<and> length xs \<le> 1"
    by simp
  from g nb clamp keep search latest show ?thesis
    by simp
qed

section \<open>Reply detection: the two patterns\<close>



















lemma match_angle_no_opening: "CHR ''<'' \<notin> set s \<Longrightarrow> match_angle s = None"
  by (induction s) auto

lemma angle_group_at_no_closing: "CHR ''>'' \<notin> set s \<Longrightarrow> angle_group_at s = None"
  by (auto simp: angle_group_at_def)

lemma match_angle_no_closing: "CHR ''>'' \<notin> set s \<Longrightarrow> match_angle s = None"
  by (induction s) (auto simp: angle_group_at_no_closing)










end
